theory Spec2Isabelle
  imports Main "HOL-Library.AList" "HOL-Library.List_Lexorder" "HOL-Library.Char_ord"
begin

section \<open>Type description model\<close>

text \<open>
  The type descriptions compared by \<^verbatim>\<open>type-validator.ts\<close>. Their TypeScript
  declarations live in \<^verbatim>\<open>types-util\<close>; the fields below are the ones the
  validator reads. Several TypeScript types have a field called \<^verbatim>\<open>name\<close>; the
  record \<open>Property\<close> keeps it, the others carry a one-letter prefix.
\<close>

record PropertyType =
  types :: "string list"
  array :: bool
  reference :: bool

record Property =
  name :: string
  typeAlternatives :: "PropertyType list"
  optional :: bool

text \<open>
  \<^verbatim>\<open>type TypeOrInterface = UnionType | InterfaceType\<close>: a union carries its
  name and its \<^verbatim>\<open>union\<close> alternatives, an interface its name, its
  \<^verbatim>\<open>properties\<close> and its \<^verbatim>\<open>superTypes\<close>.
\<close>

datatype TypeOrInterface =
  UnionType string "PropertyType list"
| InterfaceType string "Property list" "string list"

fun tname :: "TypeOrInterface \<Rightarrow> string" where
  "tname (UnionType n u) = n"
| "tname (InterfaceType n ps sts) = n"

fun isType :: "TypeOrInterface \<Rightarrow> bool" where
  "isType (UnionType n u) = True"
| "isType (InterfaceType n ps sts) = False"

fun isInterface :: "TypeOrInterface \<Rightarrow> bool" where
  "isInterface (UnionType n u) = False"
| "isInterface (InterfaceType n ps sts) = True"

record AstTypes =
  interfaces :: "TypeOrInterface list"
  unions :: "TypeOrInterface list"

section \<open>Grammar nodes and diagnostics\<close>

text \<open>
  The grammar nodes a diagnostic can be anchored to. Of a parser rule the validator reads
  \<^verbatim>\<open>inferredType\<close> and \<^verbatim>\<open>alternatives\<close>; \<open>ruleType\<close> holds the name
  that \<^verbatim>\<open>getRuleType\<close> (grammar-util) reports for the rule. Of an assignment
  it reads \<^verbatim>\<open>feature\<close>; \<open>position\<close> tells two assignments to the same feature
  apart, as their places in the document do.
\<close>

record Assignment =
  feature :: string
  position :: nat

datatype AbstractElement =
  AssignmentElement Assignment
| CompositeElement "AbstractElement list"
| OtherElement

record InferredType =
  iname :: string

record ParserRule =
  rname :: string
  ruleType :: string
  inferredType :: "InferredType option"
  alternatives :: AbstractElement

text \<open>A declaration node: a \<^verbatim>\<open>Type\<close> or an \<^verbatim>\<open>Interface\<close> of the grammar.\<close>

datatype Declaration =
  TypeDeclaration string
| InterfaceDeclaration string

fun dname :: "Declaration \<Rightarrow> string" where
  "dname (TypeDeclaration n) = n"
| "dname (InterfaceDeclaration n) = n"

datatype GrammarNode =
  RuleNode ParserRule
| InferredTypeNode InferredType
| DeclarationNode Declaration
| AssignmentNode Assignment

datatype Severity = Error | Warning | Info | Hint

record 'n DiagnosticInfo =
  node :: 'n
  property :: "string option"

record 'n Diagnostic =
  severity :: Severity
  message :: string
  info :: "'n DiagnosticInfo"

text \<open>
  The \<^verbatim>\<open>ValidationAcceptor\<close> is supplied by the caller and is append-only: calling
  it adds one diagnostic to the stream. A function that calls \<^verbatim>\<open>accept\<close> is
  modelled by the list of diagnostics it emits, in order.
\<close>

definition accept :: "Severity \<Rightarrow> string \<Rightarrow> 'n DiagnosticInfo \<Rightarrow> 'n Diagnostic list" where
  "accept sev msg i = [\<lparr>severity = sev, message = msg, info = i\<rparr>]"

text \<open>
  Modelled from the spec: \<^verbatim>\<open>extractAssignments\<close> (utils/ast-util) is not part of
  the sources at hand. Given a rule body it yields every property-assignment occurrence, in source
  order.
\<close>

fun extractAssignments :: "AbstractElement \<Rightarrow> Assignment list" where
  "extractAssignments (AssignmentElement a) = [a]"
| "extractAssignments (CompositeElement es) = concat (map extractAssignments es)"
| "extractAssignments OtherElement = []"

section \<open>Strings\<close>

abbreviation apos :: string where
  "apos \<equiv> [CHR 0x27]"

text \<open>\<^verbatim>\<open>Array.prototype.join\<close>.\<close>

fun join :: "string \<Rightarrow> string list \<Rightarrow> string" where
  "join sep [] = []"
| "join sep [x] = x"
| "join sep (x # y # ys) = x @ sep @ join sep (y # ys)"

text \<open>
  Modelled from the spec: \<^verbatim>\<open>distictAndSorted\<close> (types-util) is not part of the
  sources at hand. The spec describes the canonical string of a property type as the sorted,
  deduplicated, joined string of its \<^verbatim>\<open>types\<close>. Strings are ordered
  lexicographically by character code, the default order of \<^verbatim>\<open>Array.prototype.sort\<close>.
\<close>

definition distictAndSorted :: "string list \<Rightarrow> string list" where
  "distictAndSorted l = sort (remdups l)"

section \<open>Alternatives consistency\<close>

record ErrorInfo =
  errorMessage :: string
  typeString :: string

definition arrRefError :: "PropertyType \<Rightarrow> PropertyType \<Rightarrow> string" where
  "arrRefError found expected =
    (if array found \<and> \<not> array expected \<and> reference found \<and> \<not> reference expected
       then ''can't be an array and a reference''
     else if \<not> array found \<and> array expected \<and> \<not> reference found \<and> reference expected
       then ''has to be an array and a reference''
     else if array found \<and> \<not> array expected then ''can't be an array''
     else if \<not> array found \<and> array expected then ''has to be an array''
     else if reference found \<and> \<not> reference expected then ''can't be a reference''
     else if \<not> reference found \<and> reference expected then ''has to be a reference''
     else [])"

text \<open>
  The six guards of \<open>arrRefError\<close>, in the order of the source, each with its message. This
  list only serves to state how the guards relate to each other.
\<close>

definition arrRefConditions :: "PropertyType \<Rightarrow> PropertyType \<Rightarrow> (bool \<times> string) list" where
  "arrRefConditions found expected =
    [(array found \<and> \<not> array expected \<and> reference found \<and> \<not> reference expected,
        ''can't be an array and a reference''),
     (\<not> array found \<and> array expected \<and> \<not> reference found \<and> reference expected,
        ''has to be an array and a reference''),
     (array found \<and> \<not> array expected, ''can't be an array''),
     (\<not> array found \<and> array expected, ''has to be an array''),
     (reference found \<and> \<not> reference expected, ''can't be a reference''),
     (\<not> reference found \<and> reference expected, ''has to be a reference'')]"

text \<open>
  A JavaScript \<^verbatim>\<open>Map\<close> keeps its keys in insertion order, and setting a key that is
  already there replaces the value in place: an association list with \<open>AList.update\<close>.
\<close>

definition canonical :: "PropertyType \<Rightarrow> string" where
  "canonical e = join '' | '' (distictAndSorted (types e))"

definition stringToPropertyTypeList :: "PropertyType list \<Rightarrow> (string \<times> PropertyType) list" where
  "stringToPropertyTypeList propertyTypeList =
     fold (\<lambda>e acc. AList.update (canonical e) e acc) propertyTypeList []"

text \<open>
  The body of the loop of \<^verbatim>\<open>checkAlternativesConsistencyHelper\<close>, for one entry
  of \<^verbatim>\<open>stringToFound\<close>.
\<close>

definition checkFoundAlternative ::
  "(string \<times> PropertyType) list \<Rightarrow> string \<times> PropertyType \<Rightarrow> ErrorInfo list" where
  "checkFoundAlternative stringToExpected =
    (\<lambda>(typeString, foundPropertyType).
       (case map_of stringToExpected typeString of
          None \<Rightarrow> [\<lparr>errorMessage = ''is not expected'', typeString = typeString\<rparr>]
        | Some expectedPropertyType \<Rightarrow>
            if array expectedPropertyType \<noteq> array foundPropertyType
               \<or> reference expectedPropertyType \<noteq> reference foundPropertyType
            then [\<lparr>errorMessage = arrRefError foundPropertyType expectedPropertyType,
                   typeString = typeString\<rparr>]
            else []))"

definition checkAlternativesConsistencyHelper ::
  "PropertyType list \<Rightarrow> PropertyType list \<Rightarrow> ErrorInfo list" where
  "checkAlternativesConsistencyHelper found expected =
    (let stringToFound = stringToPropertyTypeList found;
         stringToExpected = stringToPropertyTypeList expected
     in concat (map (checkFoundAlternative stringToExpected) stringToFound))"

definition checkAlternativesConsistency ::
  "PropertyType list \<Rightarrow> PropertyType list \<Rightarrow> (string \<Rightarrow> 'd list) \<Rightarrow> 'd list" where
  "checkAlternativesConsistency inferred declared errorToRuleNodes =
    (let errorsInfo = checkAlternativesConsistencyHelper inferred declared
     in concat (map (\<lambda>errorInfo.
          errorToRuleNodes (''A type '' @ apos @ typeString errorInfo @ apos @ '' ''
                            @ errorMessage errorInfo))
        errorsInfo))"

section \<open>Property and supertype consistency\<close>

text \<open>
  \<^verbatim>\<open>propertyTypeArrayToString\<close> (types-util) is not part of the sources at hand
  and the spec only calls its result the type-alternative string of a property. The checker
  takes it as a parameter, so every theorem about the checker holds for any such function.
\<close>

definition baseError :: "string \<Rightarrow> string \<Rightarrow> string \<Rightarrow> string" where
  "baseError propertyName foundType expectedType =
     ''The assigned type '' @ apos @ foundType @ apos
     @ '' is not compatible with the declared property '' @ apos @ propertyName @ apos
     @ '' of type '' @ apos @ expectedType @ apos @ ''.''"

definition checkOptional :: "Property \<Rightarrow> Property \<Rightarrow> bool" where
  "checkOptional found expected =
    (\<not> (length (typeAlternatives found) = 1 \<and> array (typeAlternatives found ! 0)
        \<or> length (typeAlternatives expected) = 1 \<and> array (typeAlternatives expected ! 0)))"

text \<open>\<^verbatim>\<open>resultError.replace(/;$/, '.')\<close>: a semicolon at the very end becomes a period.\<close>

definition replaceFinalSemicolon :: "string \<Rightarrow> string" where
  "replaceFinalSemicolon s =
    (if s \<noteq> [] \<and> last s = CHR '';'' then butlast s @ ''.'' else s)"

text \<open>
  The body of the first loop of \<^verbatim>\<open>checkPropertiesConsistency\<close>, for one inferred
  property.
\<close>

definition checkFoundProperty ::
  "(PropertyType list \<Rightarrow> string) \<Rightarrow> Property list \<Rightarrow> (string \<Rightarrow> string \<Rightarrow> 'd list)
   \<Rightarrow> Property \<Rightarrow> 'd list" where
  "checkFoundProperty propertyTypeArrayToString declared errorToAssignment foundProperty =
    (case find (\<lambda>e. name foundProperty = name e) declared of
       Some expectedProperty \<Rightarrow>
         (let foundStringType = propertyTypeArrayToString (typeAlternatives foundProperty);
              expectedStringType = propertyTypeArrayToString (typeAlternatives expectedProperty)
          in (if foundStringType \<noteq> expectedStringType then
                (let typeAlternativesErrors =
                       checkAlternativesConsistencyHelper (typeAlternatives foundProperty)
                         (typeAlternatives expectedProperty)
                 in if length typeAlternativesErrors > 0 then
                      (let resultError =
                             foldl (\<lambda>resultError errorInfo.
                                      resultError @ '' '' @ apos @ typeString errorInfo @ apos
                                      @ '' '' @ errorMessage errorInfo @ '';'')
                               (baseError (name foundProperty) foundStringType expectedStringType)
                               typeAlternativesErrors
                       in errorToAssignment (name foundProperty) (replaceFinalSemicolon resultError))
                    else [])
              else [])
             @ (if checkOptional foundProperty expectedProperty
                   \<and> \<not> optional expectedProperty \<and> optional foundProperty
                then errorToAssignment (name foundProperty)
                       (''A property '' @ apos @ name foundProperty @ apos @ '' can't be optional.'')
                else []))
     | None \<Rightarrow>
         errorToAssignment (name foundProperty)
           (''A property '' @ apos @ name foundProperty @ apos @ '' is not expected.''))"

text \<open>The body of the second loop, for one declared property.\<close>

definition checkLackingProperty ::
  "Property list \<Rightarrow> (string \<Rightarrow> 'd list) \<Rightarrow> Property \<Rightarrow> 'd list" where
  "checkLackingProperty inferred errorToRuleNodes foundProperty =
    (case find (\<lambda>e. name foundProperty = name e) inferred of
       None \<Rightarrow> errorToRuleNodes (''A property '' @ apos @ name foundProperty @ apos @ '' is expected'')
     | Some expectedProperty \<Rightarrow> [])"

definition checkPropertiesConsistency ::
  "(PropertyType list \<Rightarrow> string) \<Rightarrow> Property list \<Rightarrow> Property list \<Rightarrow> (string \<Rightarrow> 'd list)
   \<Rightarrow> (string \<Rightarrow> string \<Rightarrow> 'd list) \<Rightarrow> 'd list" where
  "checkPropertiesConsistency propertyTypeArrayToString inferred declared errorToRuleNodes
     errorToAssignment =
     concat (map (checkFoundProperty propertyTypeArrayToString declared errorToAssignment) inferred)
     @ concat (map (checkLackingProperty inferred errorToRuleNodes) declared)"

definition specificError :: "string \<Rightarrow> bool \<Rightarrow> string" where
  "specificError superType isExtra =
     ''A super type '' @ apos @ superType @ apos @ '' is '' @ (if isExtra then ''not '' else [])
     @ ''expected''"

definition checkSuperTypesConsistency ::
  "string list \<Rightarrow> string list \<Rightarrow> (string \<Rightarrow> 'd list) \<Rightarrow> 'd list" where
  "checkSuperTypesConsistency inferred declared errorToRuleNodes =
     concat (map (\<lambda>extraSuperType. errorToRuleNodes (specificError extraSuperType True))
               (filter (\<lambda>e. e \<notin> set declared) inferred))
     @ concat (map (\<lambda>lackSuperType. errorToRuleNodes (specificError lackSuperType False))
                 (filter (\<lambda>e. e \<notin> set inferred) declared))"

section \<open>Anchoring diagnostics\<close>

text \<open>
  The two callbacks \<^verbatim>\<open>validateTypesConsistency\<close> hands to the consistency
  functions: one reports a message on every producing rule, the other on the first assignment
  of a property.
\<close>

definition applyErrorToRuleNodes ::
  "ParserRule list \<Rightarrow> string \<Rightarrow> string \<Rightarrow> GrammarNode Diagnostic list" where
  "applyErrorToRuleNodes nodes typeName =
    (\<lambda>errorMessage.
       concat (map (\<lambda>node. accept Error
                      (errorMessage @ '' in a rule that returns type '' @ apos @ typeName @ apos
                       @ ''.'')
                      \<lparr>node = (case inferredType node of Some t \<Rightarrow> InferredTypeNode t
                                | None \<Rightarrow> RuleNode node),
                        property = Some ''name''\<rparr>)
                 nodes))"

definition applyErrorToAssignment ::
  "ParserRule list \<Rightarrow> string \<Rightarrow> string \<Rightarrow> GrammarNode Diagnostic list" where
  "applyErrorToAssignment nodes =
    (let assignmentNodes = concat (map (\<lambda>node. extractAssignments (alternatives node)) nodes)
     in (\<lambda>propertyName errorMessage.
          (case find (\<lambda>assignment. feature assignment = propertyName) assignmentNodes of
             Some assignmentNode \<Rightarrow>
               accept Error errorMessage
                 \<lparr>node = AssignmentNode assignmentNode, property = Some ''feature''\<rparr>
           | None \<Rightarrow> [])))"

section \<open>Validation resources\<close>

record InferredInfo =
  inferred :: TypeOrInterface
  nodes :: "ParserRule list"

record DeclaredInfo =
  declared :: TypeOrInterface
  dnode :: Declaration

text \<open>
  \<^verbatim>\<open>InferredInfo | DeclaredInfo | InferredInfo & DeclaredInfo\<close>, the values of the
  \<^verbatim>\<open>ValidationResources\<close> map.
\<close>

datatype TypeInfo =
  OnlyInferred InferredInfo
| OnlyDeclared DeclaredInfo
| InferredAndDeclared InferredInfo DeclaredInfo

fun isInferredAndDeclared :: "TypeInfo \<Rightarrow> bool" where
  "isInferredAndDeclared (InferredAndDeclared i d) = True"
| "isInferredAndDeclared (OnlyInferred i) = False"
| "isInferredAndDeclared (OnlyDeclared d) = False"

type_synonym ValidationResources = "(string \<times> TypeInfo) list"

text \<open>
  Modelled from the spec: \<^verbatim>\<open>MultiMap\<close> (utils/collections) is not part of the
  sources at hand. It maps a key to the ordered collection of the values added under it;
  adding appends, and a key nothing was added under has the empty collection.
\<close>

type_synonym ('k, 'v) MultiMap = "'k \<Rightarrow> 'v list"

definition MultiMap_empty :: "('k, 'v) MultiMap" where
  "MultiMap_empty = (\<lambda>k. [])"

definition MultiMap_add :: "'k \<Rightarrow> 'v \<Rightarrow> ('k, 'v) MultiMap \<Rightarrow> ('k, 'v) MultiMap" where
  "MultiMap_add k v m = m(k := m k @ [v])"

definition MultiMap_get :: "('k, 'v) MultiMap \<Rightarrow> 'k \<Rightarrow> 'v list" where
  "MultiMap_get m k = m k"

text \<open>
  What \<^verbatim>\<open>collectAllAstResources\<close> yields for the grammar: its parser rules,
  datatype rules, and the declaration nodes of its interfaces and types.
\<close>

record AstResources =
  parserRules :: "ParserRule list"
  datatypeRules :: "ParserRule list"
  interfaceNodes :: "Declaration list"
  typeNodes :: "Declaration list"

text \<open>
  Modelled from the spec: \<^verbatim>\<open>getRuleType\<close> (grammar-util) is not part of the sources
  at hand; it reads the rule's declared return-type name.
\<close>

definition getRuleType :: "ParserRule \<Rightarrow> string" where
  "getRuleType rule = ruleType rule"

definition getTypeNameToRules :: "AstResources \<Rightarrow> (string, ParserRule) MultiMap" where
  "getTypeNameToRules astResources =
     fold (\<lambda>rule acc. MultiMap_add (getRuleType rule) rule acc)
       (parserRules astResources @ datatypeRules astResources) MultiMap_empty"

definition mergeTypesAndInterfaces :: "AstTypes \<Rightarrow> TypeOrInterface list" where
  "mergeTypesAndInterfaces astTypes = interfaces astTypes @ unions astTypes"

text \<open>
  \<^verbatim>\<open>collectAllAstResources\<close>, \<^verbatim>\<open>collectInferredTypes\<close> and
  \<^verbatim>\<open>collectDeclaredTypes\<close> are external to the validator: the model takes what they
  return for the grammar (\<open>astResources\<close>, \<open>inferredTypes\<close>, \<open>declaredTypes\<close>) as its input.
\<close>

definition collectValidationResources ::
  "AstResources \<Rightarrow> AstTypes \<Rightarrow> AstTypes \<Rightarrow> ValidationResources" where
  "collectValidationResources astResources inferredTypes declaredTypes =
    (let typeNameToRules = getTypeNameToRules astResources;
         inferredInfo =
           fold (\<lambda>type acc. AList.update (tname type)
                   \<lparr>inferred = type, nodes = MultiMap_get typeNameToRules (tname type)\<rparr> acc)
             (mergeTypesAndInterfaces inferredTypes) [];
         allTypesInfo =
           fold (\<lambda>type acc.
                   (case (case find (\<lambda>e. dname e = tname type) (typeNodes astResources) of
                            Some n \<Rightarrow> Some n
                          | None \<Rightarrow> find (\<lambda>e. dname e = tname type) (interfaceNodes astResources)) of
                      Some declarationNode \<Rightarrow>
                        AList.update (tname type)
                          (case map_of inferredInfo (tname type) of
                             Some inferredEntry \<Rightarrow>
                               InferredAndDeclared inferredEntry
                                 \<lparr>declared = type, dnode = declarationNode\<rparr>
                           | None \<Rightarrow> OnlyDeclared \<lparr>declared = type, dnode = declarationNode\<rparr>)
                          acc
                    | None \<Rightarrow> acc))
             (mergeTypesAndInterfaces declaredTypes) []
     in allTypesInfo)"

section \<open>The consistency check\<close>

text \<open>
  The body of the loop of \<^verbatim>\<open>validateTypesConsistency\<close>, for one entry of the map.
  An entry that is not \<open>InferredAndDeclared\<close> is skipped, as by
  \<^verbatim>\<open>if (!isInferredAndDeclared(typeInfo)) continue\<close>. The three cases on the two
  descriptions are the branches
  \<^verbatim>\<open>isType(..) && isType(..)\<close>, \<^verbatim>\<open>isInterface(..) && isInterface(..)\<close>
  and \<^verbatim>\<open>else\<close> of the source.
\<close>

definition validateTypeInfo ::
  "(PropertyType list \<Rightarrow> string) \<Rightarrow> string \<Rightarrow> TypeInfo \<Rightarrow> GrammarNode Diagnostic list" where
  "validateTypeInfo propertyTypeArrayToString typeName typeInfo =
    (case typeInfo of
       InferredAndDeclared i d \<Rightarrow>
         (let errorToRuleNodes = applyErrorToRuleNodes (nodes i) typeName;
              errorToAssignment = applyErrorToAssignment (nodes i)
          in (case (inferred i, declared d) of
                (UnionType n1 inferredUnion, UnionType n2 declaredUnion) \<Rightarrow>
                  checkAlternativesConsistency inferredUnion declaredUnion errorToRuleNodes
              | (InterfaceType n1 inferredProperties inferredSuperTypes,
                 InterfaceType n2 declaredProperties declaredSuperTypes) \<Rightarrow>
                  checkPropertiesConsistency propertyTypeArrayToString inferredProperties
                    declaredProperties errorToRuleNodes errorToAssignment
                  @ checkSuperTypesConsistency inferredSuperTypes declaredSuperTypes errorToRuleNodes
              | _ \<Rightarrow>
                  (let shapeError =
                         ''Inferred and declared versions of type '' @ typeName
                         @ '' have to be types or interfaces both.''
                   in concat (map (\<lambda>node. accept Error shapeError
                                     \<lparr>node = (case inferredType node of Some t \<Rightarrow> InferredTypeNode t
                                               | None \<Rightarrow> RuleNode node),
                                       property = Some ''name''\<rparr>)
                                (nodes i))
                      @ accept Error shapeError
                          \<lparr>node = DeclarationNode (dnode d), property = Some ''name''\<rparr>)))
     | _ \<Rightarrow> [])"

definition validateTypesConsistency ::
  "(PropertyType list \<Rightarrow> string) \<Rightarrow> AstResources \<Rightarrow> AstTypes \<Rightarrow> AstTypes
   \<Rightarrow> GrammarNode Diagnostic list" where
  "validateTypesConsistency propertyTypeArrayToString astResources inferredTypes declaredTypes =
    (let validationResources = collectValidationResources astResources inferredTypes declaredTypes
     in concat (map (\<lambda>(typeName, typeInfo).
                       validateTypeInfo propertyTypeArrayToString typeName typeInfo)
                  validationResources))"

section \<open>Check registry\<close>

text \<open>
  What a check can raise. Modelled from the spec: \<^verbatim>\<open>isOperationCancelled\<close>
  (utils/promise-util) is not part of the sources at hand; it recognises the
  cooperative-cancellation signal. Any other failure is an \<^verbatim>\<open>Error\<close> object or
  some other value, and what the wrapper reads from it can raise in turn:
  \<^verbatim>\<open>err.message\<close> and \<^verbatim>\<open>err.stack\<close> of an error yield a value or raise
  (a getter may throw), and \<^verbatim>\<open>String(err)\<close> of another value yields its rendering
  or raises (a \<^verbatim>\<open>TypeError\<close> for an object that cannot be converted, such as
  \<^verbatim>\<open>Object.create(null)\<close>). In these sums \<open>Inl\<close> holds what is raised. The message
  of an error is given as the text that the concatenation with the diagnostic's prefix appends.
\<close>

datatype Thrown =
  OperationCancelled
| ErrorObject "Thrown + string" "Thrown + string option"
| OtherValue "Thrown + string"

definition isOperationCancelled :: "Thrown \<Rightarrow> bool" where
  "isOperationCancelled err = (err = OperationCancelled)"

datatype Outcome = Returned | Raised Thrown

text \<open>What \<^verbatim>\<open>console.error\<close> received: a label with the failure, or a stack.\<close>

datatype ConsoleEntry =
  ConsoleFailure string Thrown
| ConsoleText string

text \<open>
  The surroundings of a run: the acceptor that the caller passes to the check, and
  \<^verbatim>\<open>console.error\<close>. Neither is guarded by the wrapper; each takes a call and
  gives what it raises, if anything.
\<close>

record 'n Environment =
  acceptor :: "'n Diagnostic \<Rightarrow> Thrown option"
  consoleError :: "ConsoleEntry \<Rightarrow> Thrown option"

text \<open>
  One run of a check on a node: the diagnostics it passed to the acceptor, what it passed to
  \<^verbatim>\<open>console.error\<close>, and whether it returned or raised. Awaiting a rejected promise
  raises as a synchronous throw does, so both are \<open>Raised\<close>. The receiver
  \<^verbatim>\<open>thisObj\<close> only fixes \<^verbatim>\<open>this\<close> inside the check and is left out.
\<close>

record 'n Run =
  emitted :: "'n Diagnostic list"
  console :: "ConsoleEntry list"
  outcome :: Outcome

type_synonym ('n, 't) ValidationCheck = "'n \<Rightarrow> 'n Environment \<Rightarrow> 't \<Rightarrow> 'n Run"

text \<open>
  The stack that the wrapper logs:
  \<^verbatim>\<open>if (err instanceof Error && err.stack) console.error(err.stack)\<close>.
\<close>

fun loggedStack :: "string option \<Rightarrow> ConsoleEntry list" where
  "loggedStack None = []"
| "loggedStack (Some st) = (if st = [] then [] else [ConsoleText st])"

text \<open>
  The statements of the \<^verbatim>\<open>catch\<close> block after the test for cancellation, given
  what reading the message and the stack of the failure yields. They run in the order of the
  source, and the first one that raises ends the run with what it raised: logging the failure,
  reading the message, reading and logging the stack, calling the acceptor. The source reads
  \<^verbatim>\<open>err.stack\<close> for the test and again for the call; \<open>readStack\<close> is what these
  reads yield.
\<close>

definition reportFailure ::
  "'n \<Rightarrow> 'n Environment \<Rightarrow> 'n Run \<Rightarrow> Thrown \<Rightarrow> Thrown + string \<Rightarrow> Thrown + string option
   \<Rightarrow> 'n Run" where
  "reportFailure astNode env run err readMessage readStack =
    (let failure = ConsoleFailure ''An error occurred during validation:'' err;
         run1 = run\<lparr>console := console run @ [failure]\<rparr>
     in (case consoleError env failure of
           Some raised \<Rightarrow> run1\<lparr>outcome := Raised raised\<rparr>
         | None \<Rightarrow>
             (case readMessage of
                Inl raised \<Rightarrow> run1\<lparr>outcome := Raised raised\<rparr>
              | Inr msg \<Rightarrow>
                  (case readStack of
                     Inl raised \<Rightarrow> run1\<lparr>outcome := Raised raised\<rparr>
                   | Inr st \<Rightarrow>
                       (let run2 = run1\<lparr>console := console run1 @ loggedStack st\<rparr>
                        in (case (case loggedStack st of [] \<Rightarrow> None
                                  | entry # rest \<Rightarrow> consoleError env entry) of
                              Some raised \<Rightarrow> run2\<lparr>outcome := Raised raised\<rparr>
                            | None \<Rightarrow>
                                (let diagnostic =
                                       \<lparr>severity = Error,
                                        message = ''An error occurred during validation: '' @ msg,
                                        info = \<lparr>node = astNode, property = None\<rparr>\<rparr>;
                                     run3 = run2\<lparr>emitted := emitted run2 @ [diagnostic]\<rparr>
                                 in (case acceptor env diagnostic of
                                       Some raised \<Rightarrow> run3\<lparr>outcome := Raised raised\<rparr>
                                     | None \<Rightarrow> run3\<lparr>outcome := Returned\<rparr>))))))))"

text \<open>
  The wrapper. A value that is no error has its message from \<^verbatim>\<open>String(err)\<close> and
  its stack is not read.
\<close>

definition wrapValidationException :: "('n, 't) ValidationCheck \<Rightarrow> ('n, 't) ValidationCheck" where
  "wrapValidationException check =
    (\<lambda>node env cancelToken.
       (let run = check node env cancelToken
        in (case outcome run of
              Returned \<Rightarrow> run
            | Raised err \<Rightarrow>
                if isOperationCancelled err then run
                else
                  (case err of
                     ErrorObject readMessage readStack \<Rightarrow>
                       reportFailure node env run err readMessage readStack
                   | OtherValue rendering \<Rightarrow>
                       reportFailure node env run err rendering (Inr None)
                   | OperationCancelled \<Rightarrow> run))))"

record AstReflection =
  getAllTypes :: "string list"
  isSubtype :: "string \<Rightarrow> string \<Rightarrow> bool"

record 'c ValidationRegistry =
  validationChecks :: "(string, 'c) MultiMap"
  reflection :: AstReflection

definition doRegister :: "'c ValidationRegistry \<Rightarrow> string \<Rightarrow> 'c \<Rightarrow> 'c ValidationRegistry" where
  "doRegister registry type check =
     registry\<lparr>validationChecks :=
       fold (\<lambda>subtype checks.
               if isSubtype (reflection registry) subtype type
               then MultiMap_add subtype check checks else checks)
         (getAllTypes (reflection registry)) (validationChecks registry)\<rparr>"

definition getChecks :: "'c ValidationRegistry \<Rightarrow> string \<Rightarrow> 'c list" where
  "getChecks registry type = MultiMap_get (validationChecks registry) type"

text \<open>
  A value of the record passed to \<^verbatim>\<open>register\<close>:
  \<^verbatim>\<open>ValidationCheck | ValidationCheck[] | undefined\<close>. The record itself is the list
  of its entries, in the order of \<^verbatim>\<open>Object.entries\<close>.
\<close>

datatype 'c ChecksEntry =
  SingleCheck 'c
| CheckArray "'c list"
| Undefined

definition register ::
  "('n, 't) ValidationCheck ValidationRegistry
   \<Rightarrow> (string \<times> ('n, 't) ValidationCheck ChecksEntry) list
   \<Rightarrow> ('n, 't) ValidationCheck ValidationRegistry" where
  "register registry checksRecord =
     fold (\<lambda>(type, ch) registry.
             (case ch of
                CheckArray checks \<Rightarrow>
                  fold (\<lambda>check registry. doRegister registry type (wrapValidationException check))
                    checks registry
              | SingleCheck check \<Rightarrow> doRegister registry type (wrapValidationException check)
              | Undefined \<Rightarrow> registry))
       checksRecord registry"

text \<open>The checks that one value of the record passed to \<^verbatim>\<open>register\<close> holds.\<close>

fun checksOf :: "'c ChecksEntry \<Rightarrow> 'c list" where
  "checksOf (SingleCheck check) = [check]"
| "checksOf (CheckArray checks) = checks"
| "checksOf Undefined = []"

section \<open>Agreement of two descriptions\<close>

text \<open>
  What it means for an inferred and a declared description to agree. Two lists of alternatives
  agree when they are the same list, or when they have the same canonical type strings with the
  same array and reference flags, the expected list giving one pair of flags to each canonical
  string (the spec identifies an alternative by that string). Two properties agree when they
  have the same name, the same optional flag and the same type-alternative string, or else
  agreeing alternatives.
\<close>

definition alternativeSignature :: "PropertyType \<Rightarrow> string \<times> bool \<times> bool" where
  "alternativeSignature e = (canonical e, array e, reference e)"

definition sameAlternatives :: "PropertyType list \<Rightarrow> PropertyType list \<Rightarrow> bool" where
  "sameAlternatives found expected =
    (found = expected
     \<or> set (map alternativeSignature found) = set (map alternativeSignature expected)
       \<and> distinct (map fst (remdups (map alternativeSignature expected))))"

definition sameProperty :: "(PropertyType list \<Rightarrow> string) \<Rightarrow> Property \<Rightarrow> Property \<Rightarrow> bool" where
  "sameProperty propertyTypeArrayToString found expected =
    (name found = name expected \<and> optional found = optional expected
     \<and> (propertyTypeArrayToString (typeAlternatives found)
          = propertyTypeArrayToString (typeAlternatives expected)
        \<or> sameAlternatives (typeAlternatives found) (typeAlternatives expected)))"

text \<open>
  Two descriptions agree when they have the same shape kind and, for unions, agreeing
  alternatives; for interfaces, agreeing properties both ways, property names unique in the
  declared interface (the spec's invariant on properties), and the same supertype names.
\<close>

fun sameDescription ::
  "(PropertyType list \<Rightarrow> string) \<Rightarrow> TypeOrInterface \<Rightarrow> TypeOrInterface \<Rightarrow> bool" where
  "sameDescription propertyTypeArrayToString (UnionType n1 u1) (UnionType n2 u2) =
     sameAlternatives u1 u2"
| "sameDescription propertyTypeArrayToString (InterfaceType n1 ps1 sts1) (InterfaceType n2 ps2 sts2) =
     (list_all (\<lambda>f. list_ex (sameProperty propertyTypeArrayToString f) ps2) ps1
      \<and> list_all (\<lambda>e. list_ex (\<lambda>f. sameProperty propertyTypeArrayToString f e) ps1) ps2
      \<and> distinct (map name ps2)
      \<and> set sts1 = set sts2)"
| "sameDescription propertyTypeArrayToString (UnionType n1 u1) (InterfaceType n2 ps2 sts2) = False"
| "sameDescription propertyTypeArrayToString (InterfaceType n1 ps1 sts1) (UnionType n2 u2) = False"

section \<open>Shapes of diagnostics\<close>

text \<open>
  The diagnostic that \<open>applyErrorToRuleNodes\<close> emits for one producing rule: the message with
  the rule suffix, anchored to the rule's inferred-type annotation when there is one and to the
  rule otherwise, restricted to the \<^verbatim>\<open>name\<close> property.
\<close>

definition ruleDiagnostic :: "string \<Rightarrow> string \<Rightarrow> ParserRule \<Rightarrow> GrammarNode Diagnostic" where
  "ruleDiagnostic typeName errorText rule =
     \<lparr>severity = Error,
      message = errorText @ '' in a rule that returns type '' @ apos @ typeName @ apos @ ''.'',
      info = \<lparr>node = (case inferredType rule of Some t \<Rightarrow> InferredTypeNode t
                      | None \<Rightarrow> RuleNode rule),
              property = Some ''name''\<rparr>\<rparr>"

definition ruleAnchored :: "GrammarNode Diagnostic \<Rightarrow> bool" where
  "ruleAnchored d =
    (case node (info d) of
       RuleNode r \<Rightarrow> True
     | InferredTypeNode t \<Rightarrow> True
     | DeclarationNode n \<Rightarrow> False
     | AssignmentNode a \<Rightarrow> False)"

text \<open>The shape-mismatch message, and the same diagnostic without the rule suffix.\<close>

definition shapeMismatchMessage :: "string \<Rightarrow> string" where
  "shapeMismatchMessage typeName =
     ''Inferred and declared versions of type '' @ typeName
     @ '' have to be types or interfaces both.''"

definition nameDiagnostic :: "string \<Rightarrow> GrammarNode \<Rightarrow> GrammarNode Diagnostic" where
  "nameDiagnostic errorText anchor =
     \<lparr>severity = Error, message = errorText,
      info = \<lparr>node = anchor, property = Some ''name''\<rparr>\<rparr>"

definition ruleAnchor :: "ParserRule \<Rightarrow> GrammarNode" where
  "ruleAnchor rule =
    (case inferredType rule of Some t \<Rightarrow> InferredTypeNode t | None \<Rightarrow> RuleNode rule)"

text \<open>
  The combined message for a property whose types do not fit: the base sentence, then the
  clauses of the single mismatches joined by semicolons, then a period.
\<close>

definition typesMismatchMessage :: "string \<Rightarrow> string \<Rightarrow> string \<Rightarrow> ErrorInfo list \<Rightarrow> string" where
  "typesMismatchMessage propertyName foundType expectedType errors =
     baseError propertyName foundType expectedType @ '' ''
     @ join ''; '' (map (\<lambda>errorInfo. apos @ typeString errorInfo @ apos @ '' ''
                                        @ errorMessage errorInfo) errors)
     @ ''.''"

definition optionalMessage :: "string \<Rightarrow> string" where
  "optionalMessage propertyName = ''A property '' @ apos @ propertyName @ apos @ '' can't be optional.''"

definition assignmentDiagnostic :: "string \<Rightarrow> Assignment \<Rightarrow> GrammarNode Diagnostic" where
  "assignmentDiagnostic errorText assignment =
     \<lparr>severity = Error, message = errorText,
      info = \<lparr>node = AssignmentNode assignment, property = Some ''feature''\<rparr>\<rparr>"

text \<open>The first assignment to a property among the assignments of the producing rules.\<close>

definition firstAssignment :: "ParserRule list \<Rightarrow> string \<Rightarrow> Assignment option" where
  "firstAssignment rules propertyName =
     find (\<lambda>assignment. feature assignment = propertyName)
       (concat (map (\<lambda>rule. extractAssignments (alternatives rule)) rules))"

text \<open>A property with exactly one type alternative, which is an array.\<close>

definition singleArrayAlternative :: "Property \<Rightarrow> bool" where
  "singleArrayAlternative p =
    (case typeAlternatives p of [] \<Rightarrow> False | [a] \<Rightarrow> array a | a # b # rest \<Rightarrow> False)"

text \<open>A declared type has a declaration node when a type or interface node bears its name.\<close>

definition hasDeclarationNode :: "AstResources \<Rightarrow> TypeOrInterface \<Rightarrow> bool" where
  "hasDeclarationNode astResources type =
    (tname type \<in> dname ` set (typeNodes astResources @ interfaceNodes astResources))"

text \<open>
  What an entry of the validation resources holds under a name, given the names of the inferred
  types: never an inferred description alone.
\<close>

definition entryFits :: "string list \<Rightarrow> string \<times> TypeInfo \<Rightarrow> bool" where
  "entryFits inferredNames =
    (\<lambda>(typeName, typeInfo).
       (case typeInfo of
          OnlyInferred i \<Rightarrow> False
        | OnlyDeclared d \<Rightarrow> typeName \<notin> set inferredNames \<and> tname (declared d) = typeName
        | InferredAndDeclared i d \<Rightarrow>
            typeName \<in> set inferredNames \<and> tname (inferred i) = typeName
            \<and> tname (declared d) = typeName))"

text \<open>
  What \<open>collectValidationResources\<close> is expected to hold under a name. The declaration
  node is the first type node of that name, or else the first interface node of that name; the
  declared and the inferred description are the last ones of that name in their lists (a later
  \<^verbatim>\<open>set\<close> replaces an earlier value); the producing rules are the parser and
  datatype rules whose rule type is that name, in order.
\<close>

definition declarationNodeOf :: "AstResources \<Rightarrow> string \<Rightarrow> Declaration option" where
  "declarationNodeOf astResources typeName =
    (case find (\<lambda>e. dname e = typeName) (typeNodes astResources) of
       Some n \<Rightarrow> Some n
     | None \<Rightarrow> find (\<lambda>e. dname e = typeName) (interfaceNodes astResources))"

definition lastNamed :: "string \<Rightarrow> TypeOrInterface list \<Rightarrow> TypeOrInterface option" where
  "lastNamed typeName ts = find (\<lambda>t. tname t = typeName) (rev ts)"

definition producingRules :: "AstResources \<Rightarrow> string \<Rightarrow> ParserRule list" where
  "producingRules astResources typeName =
     filter (\<lambda>rule. getRuleType rule = typeName)
       (parserRules astResources @ datatypeRules astResources)"

definition expectedEntry :: "AstResources \<Rightarrow> AstTypes \<Rightarrow> AstTypes \<Rightarrow> string \<Rightarrow> TypeInfo option" where
  "expectedEntry astResources inferredTypes declaredTypes typeName =
    (case declarationNodeOf astResources typeName of
       None \<Rightarrow> None
     | Some declarationNode \<Rightarrow>
         (case lastNamed typeName (mergeTypesAndInterfaces declaredTypes) of
            None \<Rightarrow> None
          | Some declaredDescription \<Rightarrow>
              (case lastNamed typeName (mergeTypesAndInterfaces inferredTypes) of
                 None \<Rightarrow> Some (OnlyDeclared \<lparr>declared = declaredDescription, dnode = declarationNode\<rparr>)
               | Some inferredDescription \<Rightarrow>
                   Some (InferredAndDeclared
                           \<lparr>inferred = inferredDescription,
                            nodes = producingRules astResources typeName\<rparr>
                           \<lparr>declared = declaredDescription, dnode = declarationNode\<rparr>))))"

text \<open>One pass over a list of entries of the validation resources.\<close>

definition validateEntries ::
  "(PropertyType list \<Rightarrow> string) \<Rightarrow> ValidationResources \<Rightarrow> GrammarNode Diagnostic list" where
  "validateEntries propertyTypeArrayToString entries =
     concat (map (\<lambda>(typeName, typeInfo).
                    validateTypeInfo propertyTypeArrayToString typeName typeInfo) entries)"

section \<open>Rendering type alternatives\<close>

text \<open>
  Modelled from the spec: an instance of the parameter
  \<^verbatim>\<open>propertyTypeArrayToString\<close> of the checker, to run it on concrete inputs.
  The spec expects an array or reference difference between two properties to show in their
  type-alternative strings; this rendering marks a reference by a leading \<^verbatim>\<open>@\<close> and
  an array by a trailing \<^verbatim>\<open>[]\<close>, and joins the distinct sorted renderings of the
  alternatives.
\<close>

definition typePropertyToString :: "PropertyType \<Rightarrow> string" where
  "typePropertyToString propertyType =
    (let res = canonical propertyType;
         res = (if reference propertyType then ''@'' @ res else res);
         res = (if array propertyType then res @ ''[]'' else res)
     in res)"

definition propertyTypeArrayToString :: "PropertyType list \<Rightarrow> string" where
  "propertyTypeArrayToString propertyTypes =
     join '' | '' (distictAndSorted (map typePropertyToString propertyTypes))"

section \<open>Association lists built by folding\<close>

lemma set_update_subset: "set (AList.update k v al) \<subseteq> insert (k, v) (set al)"
  by (induction al) auto

lemma fold_update_entries:
  "(k, x) \<in> set (fold (\<lambda>e acc. AList.update (key e) e acc) xs acc) \<Longrightarrow>
   (k, x) \<in> set acc \<or> (x \<in> set xs \<and> k = key x)"
proof (induction xs arbitrary: acc)
  case Nil
  then show ?case by simp
next
  case (Cons y ys)
  from Cons.IH[of "AList.update (key y) y acc"] Cons.prems
  have "(k, x) \<in> set (AList.update (key y) y acc) \<or> (x \<in> set ys \<and> k = key x)" by simp
  then show ?case using set_update_subset[of "key y" y acc] by auto
qed

lemma fold_update_keys:
  "fst ` set (fold (\<lambda>t acc. AList.update (key t) (val t) acc) xs acc)
   = fst ` set acc \<union> key ` set xs"
  by (induction xs arbitrary: acc) (auto simp: AList.dom_update)

lemma fold_update_last:
  "map_of (fold (\<lambda>t acc. AList.update (key t) (val t) acc) xs acc) k = Some v \<Longrightarrow>
   map_of acc k = Some v \<or> (\<exists>t \<in> set xs. key t = k \<and> val t = v)"
proof (induction xs arbitrary: acc)
  case Nil
  then show ?case by simp
next
  case (Cons x xs)
  from Cons.IH[of "AList.update (key x) (val x) acc"] Cons.prems
  have "map_of (AList.update (key x) (val x) acc) k = Some v
        \<or> (\<exists>t \<in> set xs. key t = k \<and> val t = v)" by simp
  then show ?case by (auto simp: AList.update_Some_unfold)
qed

lemma fold_guarded_update_keys:
  "fst ` set (fold (\<lambda>t acc. case g t of Some n \<Rightarrow> AList.update (key t) (val t n) acc
                              | None \<Rightarrow> acc) xs acc)
   = fst ` set acc \<union> key ` {t \<in> set xs. g t \<noteq> None}"
proof (induction xs arbitrary: acc)
  case Nil
  then show ?case by simp
next
  case (Cons x xs)
  then show ?case by (cases "g x") (auto simp: AList.dom_update)
qed

lemma fold_guarded_update_entries:
  "(k, v) \<in> set (fold (\<lambda>t acc. case g t of Some n \<Rightarrow> AList.update (key t) (val t n) acc
                                 | None \<Rightarrow> acc) xs acc) \<Longrightarrow>
   (k, v) \<in> set acc \<or> (\<exists>t \<in> set xs. \<exists>n. k = key t \<and> v = val t n)"
proof (induction xs arbitrary: acc)
  case Nil
  then show ?case by simp
next
  case (Cons x xs)
  show ?case
  proof (cases "g x")
    case None
    with Cons.IH[of acc] Cons.prems show ?thesis by auto
  next
    case (Some n)
    with Cons.IH[of "AList.update (key x) (val x n) acc"] Cons.prems
    have "(k, v) \<in> set (AList.update (key x) (val x n) acc)
          \<or> (\<exists>t \<in> set xs. \<exists>n. k = key t \<and> v = val t n)" by simp
    then show ?thesis using set_update_subset[of "key x" "val x n" acc] by auto
  qed
qed

lemma fold_update_distinct:
  "distinct (map fst acc) \<Longrightarrow>
   distinct (map fst (fold (\<lambda>e acc. AList.update (key e) (val e) acc) xs acc))"
  by (induction xs arbitrary: acc) (simp_all add: AList.distinct_update)

lemma fold_update_fresh:
  "distinct (map key xs) \<Longrightarrow> key ` set xs \<inter> fst ` set acc = {} \<Longrightarrow>
   fold (\<lambda>e acc. AList.update (key e) e acc) xs acc = acc @ map (\<lambda>e. (key e, e)) xs"
proof (induction xs arbitrary: acc)
  case Nil
  then show ?case by simp
next
  case (Cons x xs)
  have fresh: "key x \<notin> fst ` set acc" using Cons.prems(2) by auto
  have upd: "AList.update (key x) x acc = acc @ [(key x, x)]"
    using fresh by (induction acc) auto
  have "key ` set xs \<inter> fst ` set (acc @ [(key x, x)]) = {}"
    using Cons.prems by auto
  with Cons.IH[of "acc @ [(key x, x)]"] Cons.prems(1) upd show ?case by simp
qed

section \<open>Facts about the alternatives map\<close>

lemma stringToPropertyTypeList_distinct:
  "distinct (map canonical xs) \<Longrightarrow> stringToPropertyTypeList xs = map (\<lambda>e. (canonical e, e)) xs"
  unfolding stringToPropertyTypeList_def
  using fold_update_fresh[of canonical xs "[]"] by simp

lemma map_of_canonical:
  "distinct (map canonical xs) \<Longrightarrow> e \<in> set xs \<Longrightarrow>
   map_of (map (\<lambda>e. (canonical e, e)) xs) (canonical e) = Some e"
  by (induction xs) (auto simp: rev_image_eqI)

lemma arrRefError_first:
  "array f \<noteq> array e \<or> reference f \<noteq> reference e \<Longrightarrow>
   find fst (arrRefConditions f e) = Some (True, arrRefError f e)"
  unfolding arrRefConditions_def arrRefError_def by (simp; blast)

lemma arrRefError_nonempty:
  "array f \<noteq> array e \<or> reference f \<noteq> reference e \<Longrightarrow> arrRefError f e \<noteq> []"
  unfolding arrRefError_def by auto

lemma filter_concat_key:
  assumes "distinct (map key xs)" and "x \<in> set xs"
    and "\<forall>y \<in> set xs. \<forall>z \<in> set (g y). tag z = key y"
  shows "filter (\<lambda>z. tag z = key x) (concat (map g xs)) = g x"
  using assms
proof (induction xs)
  case Nil
  then show ?case by simp
next
  case (Cons y ys)
  have all_y: "\<forall>z \<in> set (g y). tag z = key y" using Cons.prems(3) by simp
  show ?case
  proof (cases "x = y")
    case True
    have "\<forall>w \<in> set ys. key w \<noteq> key x" using Cons.prems(1) True by (auto simp: image_iff)
    then have "\<forall>z \<in> set (concat (map g ys)). tag z \<noteq> key x"
      using Cons.prems(3) by auto
    then have "filter (\<lambda>z. tag z = key x) (concat (map g ys)) = []"
      by (simp add: filter_empty_conv)
    moreover have "filter (\<lambda>z. tag z = key x) (g y) = g y"
      using all_y True by (simp add: filter_id_conv)
    ultimately show ?thesis using True by simp
  next
    case False
    then have xin: "x \<in> set ys" using Cons.prems(2) by simp
    then have "key y \<noteq> key x" using Cons.prems(1) by (auto simp: image_iff)
    then have "filter (\<lambda>z. tag z = key x) (g y) = []"
      using all_y by (simp add: filter_empty_conv)
    moreover have "filter (\<lambda>z. tag z = key x) (concat (map g ys)) = g x"
      using Cons.IH xin Cons.prems by simp
    ultimately show ?thesis by simp
  qed
qed

lemma checkFoundAlternative_typeString:
  "z \<in> set (checkFoundAlternative m (k, x)) \<Longrightarrow> typeString z = k"
  unfolding checkFoundAlternative_def by (auto split: option.splits if_splits)

section \<open>Array and reference mismatches\<close>

text \<open>
  Claim C2, as amended. Let \<open>f\<close> be a found alternative and \<open>e\<close> the expected alternative with
  the same canonical type string, each list having one alternative per canonical string, and let
  them differ in the array flag or in the reference flag. Then the helper reports exactly one
  error for that type string; its message is the message of the first guard of \<open>arrRefError\<close>
  that holds, in the order of the source, and it is never empty. The guards themselves overlap
  (see the counterexample below): it is the precedence that makes the message unique.
\<close>

theorem arrRefError_exactly_one_message:
  assumes "f \<in> set found" and "e \<in> set expected" and "canonical f = canonical e"
    and "distinct (map canonical found)" and "distinct (map canonical expected)"
    and "array f \<noteq> array e \<or> reference f \<noteq> reference e"
  shows "filter (\<lambda>errorInfo. typeString errorInfo = canonical f)
           (checkAlternativesConsistencyHelper found expected)
         = [\<lparr>errorMessage = arrRefError f e, typeString = canonical f\<rparr>]
       \<and> find fst (arrRefConditions f e) = Some (True, arrRefError f e)
       \<and> arrRefError f e \<noteq> []"
proof -
  let ?m = "stringToPropertyTypeList expected"
  let ?g = "\<lambda>x. checkFoundAlternative ?m (canonical x, x)"
  have h: "checkAlternativesConsistencyHelper found expected = concat (map ?g found)"
    using assms(4)
    by (simp add: checkAlternativesConsistencyHelper_def stringToPropertyTypeList_distinct comp_def)
  have tags: "\<forall>y \<in> set found. \<forall>z \<in> set (?g y). typeString z = canonical y"
    using checkFoundAlternative_typeString by blast
  have "filter (\<lambda>z. typeString z = canonical f) (concat (map ?g found)) = ?g f"
    using filter_concat_key[of canonical found f ?g typeString] assms(1,4) tags by simp
  moreover have "map_of ?m (canonical f) = Some e"
    using assms(2,3,5) by (simp add: stringToPropertyTypeList_distinct map_of_canonical)
  then have "?g f = [\<lparr>errorMessage = arrRefError f e, typeString = canonical f\<rparr>]"
    using assms(6) unfolding checkFoundAlternative_def by auto
  ultimately show ?thesis
    using h assms(6) arrRefError_first arrRefError_nonempty by simp
qed

text \<open>
  The theorem at a union inferred as \<^verbatim>\<open>Number | String[]\<close> and declared as
  \<^verbatim>\<open>Number | String\<close>: the one error says that \<^verbatim>\<open>String\<close> can't be an array.
\<close>

theorem arrRefError_exactly_one_message_witness:
  "filter (\<lambda>errorInfo. typeString errorInfo = ''String'')
     (checkAlternativesConsistencyHelper
        [\<lparr>types = [''Number''], array = False, reference = False\<rparr>,
         \<lparr>types = [''String''], array = True, reference = False\<rparr>]
        [\<lparr>types = [''Number''], array = False, reference = False\<rparr>,
         \<lparr>types = [''String''], array = False, reference = False\<rparr>])
   = [\<lparr>errorMessage = ''can't be an array'', typeString = ''String''\<rparr>]"
  using arrRefError_exactly_one_message
    [of "\<lparr>types = [''String''], array = True, reference = False\<rparr>"
        "[\<lparr>types = [''Number''], array = False, reference = False\<rparr>,
          \<lparr>types = [''String''], array = True, reference = False\<rparr>]"
        "\<lparr>types = [''String''], array = False, reference = False\<rparr>"
        "[\<lparr>types = [''Number''], array = False, reference = False\<rparr>,
          \<lparr>types = [''String''], array = False, reference = False\<rparr>]"]
  by (simp add: canonical_def distictAndSorted_def arrRefError_def)

text \<open>
  Claim C2, as stated, says that the six conditions are mutually exclusive. They are not: for a
  found alternative that is an array and no reference against an expected one that is a reference
  and no array, the third and the sixth condition both hold, and only the earlier message,
  about the array, results.
\<close>

theorem arrRefConditions_not_exclusive:
  "map fst (arrRefConditions \<lparr>types = [''A''], array = True, reference = False\<rparr>
                            \<lparr>types = [''A''], array = False, reference = True\<rparr>)
     = [False, False, True, False, False, True]
   \<and> arrRefError \<lparr>types = [''A''], array = True, reference = False\<rparr>
                  \<lparr>types = [''A''], array = False, reference = True\<rparr> = ''can't be an array''"
  by (simp add: arrRefConditions_def arrRefError_def)

section \<open>Agreement yields no diagnostics\<close>

lemma stringToPropertyTypeList_entries:
  "(k, x) \<in> set (stringToPropertyTypeList xs) \<Longrightarrow> x \<in> set xs \<and> k = canonical x"
  unfolding stringToPropertyTypeList_def
  using fold_update_entries[of k x canonical xs "[]"] by simp

lemma stringToPropertyTypeList_keys:
  "fst ` set (stringToPropertyTypeList xs) = canonical ` set xs"
  unfolding stringToPropertyTypeList_def
  using fold_update_keys[where key = canonical and val = "\<lambda>e. e" and xs = xs and acc = "[]"]
  by simp

lemma stringToPropertyTypeList_lookup_self:
  assumes "(k, x) \<in> set (stringToPropertyTypeList xs)"
  shows "map_of (stringToPropertyTypeList xs) k = Some x"
proof -
  have "distinct (map fst (stringToPropertyTypeList xs))"
    unfolding stringToPropertyTypeList_def
    using fold_update_distinct[where key = canonical and val = "\<lambda>e. e" and xs = xs
                                 and acc = "[]"]
    by simp
  then show ?thesis using assms by (rule map_of_is_SomeI)
qed

lemma helper_same_list: "checkAlternativesConsistencyHelper xs xs = []"
proof -
  have "checkFoundAlternative (stringToPropertyTypeList xs) p = []"
    if "p \<in> set (stringToPropertyTypeList xs)" for p
  proof -
    obtain k x where p: "p = (k, x)" by (cases p)
    with that stringToPropertyTypeList_lookup_self
    have "map_of (stringToPropertyTypeList xs) k = Some x" by blast
    then show ?thesis using p by (simp add: checkFoundAlternative_def)
  qed
  then show ?thesis by (simp add: checkAlternativesConsistencyHelper_def)
qed

lemma helper_same_signatures:
  assumes sigs: "set (map alternativeSignature found) = set (map alternativeSignature expected)"
    and flags: "distinct (map fst (remdups (map alternativeSignature expected)))"
  shows "checkAlternativesConsistencyHelper found expected = []"
proof -
  have inj: "inj_on fst (alternativeSignature ` set expected)"
    using flags by (simp add: distinct_map)
  have "checkFoundAlternative (stringToPropertyTypeList expected) p = []"
    if "p \<in> set (stringToPropertyTypeList found)" for p
  proof -
    obtain k x where p: "p = (k, x)" by (cases p)
    with that have x: "x \<in> set found" and k: "k = canonical x"
      using stringToPropertyTypeList_entries by blast+
    from x sigs have "alternativeSignature x \<in> alternativeSignature ` set expected" by auto
    then obtain y' where y': "y' \<in> set expected"
      and xy': "alternativeSignature y' = alternativeSignature x"
      by auto
    have "canonical y' = k"
      using xy' k by (simp add: alternativeSignature_def)
    then have "k \<in> fst ` set (stringToPropertyTypeList expected)"
      using y' by (auto simp: stringToPropertyTypeList_keys)
    then obtain y where look: "map_of (stringToPropertyTypeList expected) k = Some y"
      by (cases "map_of (stringToPropertyTypeList expected) k")
         (auto simp: map_of_eq_None_iff)
    then have y: "y \<in> set expected" and ky: "canonical y = k"
      using stringToPropertyTypeList_entries[of k y expected] by (auto dest: map_of_SomeD)
    have "fst (alternativeSignature y) = fst (alternativeSignature y')"
      using ky k xy' by (simp add: alternativeSignature_def)
    then have "alternativeSignature y = alternativeSignature y'"
      using inj y y' by (auto dest: inj_onD)
    then have "array y = array x" and "reference y = reference x"
      using xy' by (simp_all add: alternativeSignature_def)
    then show ?thesis using p look by (simp add: checkFoundAlternative_def)
  qed
  then show ?thesis by (simp add: checkAlternativesConsistencyHelper_def)
qed

lemma helper_sameAlternatives:
  "sameAlternatives found expected \<Longrightarrow> checkAlternativesConsistencyHelper found expected = []"
  using helper_same_list helper_same_signatures by (auto simp: sameAlternatives_def)

lemma find_unique_name:
  "distinct (map name ps) \<Longrightarrow> e \<in> set ps \<Longrightarrow> name e = n \<Longrightarrow> find (\<lambda>e. n = name e) ps = Some e"
  by (induction ps) (auto simp: image_iff)

lemma checkFoundProperty_sameProperty:
  assumes "sameProperty p2s f e" and "e \<in> set ps" and "distinct (map name ps)"
  shows "checkFoundProperty p2s ps errorToAssignment f = []"
proof -
  have fnd: "find (\<lambda>e. name f = name e) ps = Some e"
    using assms by (simp add: sameProperty_def find_unique_name)
  have opt: "optional f = optional e" using assms(1) by (simp add: sameProperty_def)
  have "p2s (typeAlternatives f) = p2s (typeAlternatives e)
        \<or> checkAlternativesConsistencyHelper (typeAlternatives f) (typeAlternatives e) = []"
    using assms(1) helper_sameAlternatives by (auto simp: sameProperty_def)
  then show ?thesis using fnd opt by (auto simp: checkFoundProperty_def Let_def)
qed

lemma checkLackingProperty_present:
  assumes "f \<in> set ps" and "name f = name e"
  shows "checkLackingProperty ps errorToRuleNodes e = []"
proof -
  have "find (\<lambda>x. name e = name x) ps \<noteq> None"
    using assms by (auto simp: find_None_iff)
  then show ?thesis by (auto simp: checkLackingProperty_def split: option.splits)
qed

lemma checkSuperTypesConsistency_same:
  "set xs = set ys \<Longrightarrow> checkSuperTypesConsistency xs ys r = []"
  by (simp add: checkSuperTypesConsistency_def filter_empty_conv)

text \<open>
  Claim C1. For a name that has an inferred and a declared description, when the two agree
  (same shape kind; for unions the same alternatives by canonical string and flags; for
  interfaces the same properties by name, type-alternative string and optional flag, and the
  same supertype names), the loop body of \<open>validateTypesConsistency\<close> emits no diagnostic for
  that name, whatever the producing rules and their assignments are. Agreement is that of
  \<open>sameDescription\<close>: sets are compared, so the order of alternatives, properties and
  supertypes does not matter, under the spec's invariants that property names are unique in the
  declared interface and that a canonical string identifies an alternative.
\<close>

theorem validateTypeInfo_agreement_silent:
  assumes "sameDescription p2s (inferred i) (declared d)"
  shows "validateTypeInfo p2s typeName (InferredAndDeclared i d) = []"
proof (cases "inferred i")
  case (UnionType n1 u1)
  then obtain n2 u2 where d: "declared d = UnionType n2 u2" and same: "sameAlternatives u1 u2"
    using assms by (cases "declared d") auto
  show ?thesis
    using UnionType d helper_sameAlternatives[OF same]
    by (simp add: validateTypeInfo_def checkAlternativesConsistency_def Let_def)
next
  case (InterfaceType n1 ps1 sts1)
  then obtain n2 ps2 sts2 where d: "declared d = InterfaceType n2 ps2 sts2"
    and fwd: "list_all (\<lambda>f. list_ex (sameProperty p2s f) ps2) ps1"
    and bwd: "list_all (\<lambda>e. list_ex (\<lambda>f. sameProperty p2s f e) ps1) ps2"
    and dist: "distinct (map name ps2)" and sts: "set sts1 = set sts2"
    using assms by (cases "declared d") auto
  have found: "checkFoundProperty p2s ps2 a f = []" if "f \<in> set ps1"
    for f and a :: "string \<Rightarrow> string \<Rightarrow> GrammarNode Diagnostic list"
  proof -
    from fwd that obtain e where "e \<in> set ps2" "sameProperty p2s f e"
      by (auto simp: list_all_iff list_ex_iff)
    then show ?thesis using dist checkFoundProperty_sameProperty by blast
  qed
  have lacking: "checkLackingProperty ps1 r e = []" if "e \<in> set ps2"
    for e and r :: "string \<Rightarrow> GrammarNode Diagnostic list"
  proof -
    from bwd that obtain f where "f \<in> set ps1" "sameProperty p2s f e"
      by (auto simp: list_all_iff list_ex_iff)
    then show ?thesis using checkLackingProperty_present by (auto simp: sameProperty_def)
  qed
  show ?thesis
    using InterfaceType d found lacking checkSuperTypesConsistency_same[OF sts]
    by (simp add: validateTypeInfo_def checkPropertiesConsistency_def Let_def)
qed

text \<open>
  The theorem at an interface \<^verbatim>\<open>Person\<close> whose declaration lists the same two
  properties and the same two supertypes as the inferred type, in another order.
\<close>

theorem validateTypeInfo_agreement_silent_witness:
  "validateTypeInfo propertyTypeArrayToString ''Person''
     (InferredAndDeclared
        \<lparr>inferred = InterfaceType ''Person''
           [\<lparr>name = ''name'',
             typeAlternatives = [\<lparr>types = [''string''], array = False, reference = False\<rparr>],
             optional = False\<rparr>,
            \<lparr>name = ''friends'',
             typeAlternatives = [\<lparr>types = [''Person''], array = True, reference = True\<rparr>],
             optional = True\<rparr>]
           [''Entity'', ''Named''],
         nodes = [\<lparr>rname = ''Person'', ruleType = ''Person'', inferredType = None,
                   alternatives = CompositeElement
                     [AssignmentElement \<lparr>feature = ''name'', position = 1\<rparr>,
                      AssignmentElement \<lparr>feature = ''friends'', position = 2\<rparr>]\<rparr>]\<rparr>
        \<lparr>declared = InterfaceType ''Person''
           [\<lparr>name = ''friends'',
             typeAlternatives = [\<lparr>types = [''Person''], array = True, reference = True\<rparr>],
             optional = True\<rparr>,
            \<lparr>name = ''name'',
             typeAlternatives = [\<lparr>types = [''string''], array = False, reference = False\<rparr>],
             optional = False\<rparr>]
           [''Named'', ''Entity''],
         dnode = InterfaceDeclaration ''Person''\<rparr>)
   = []"
proof -
  let ?pn = "\<lparr>name = ''name'',
               typeAlternatives = [\<lparr>types = [''string''], array = False, reference = False\<rparr>],
               optional = False\<rparr>"
  let ?pf = "\<lparr>name = ''friends'',
               typeAlternatives = [\<lparr>types = [''Person''], array = True, reference = True\<rparr>],
               optional = True\<rparr>"
  let ?i = "\<lparr>inferred = InterfaceType ''Person'' [?pn, ?pf] [''Entity'', ''Named''],
              nodes = [\<lparr>rname = ''Person'', ruleType = ''Person'', inferredType = None,
                        alternatives = CompositeElement
                          [AssignmentElement \<lparr>feature = ''name'', position = 1\<rparr>,
                           AssignmentElement \<lparr>feature = ''friends'', position = 2\<rparr>]\<rparr>]\<rparr>"
  let ?d = "\<lparr>declared = InterfaceType ''Person'' [?pf, ?pn] [''Named'', ''Entity''],
              dnode = InterfaceDeclaration ''Person''\<rparr>"
  have same: "sameDescription propertyTypeArrayToString (inferred ?i) (declared ?d)"
    by (simp add: sameProperty_def insert_commute)
  show ?thesis
    using validateTypeInfo_agreement_silent[OF same, of "''Person''"] by simp
qed

text \<open>
  The invariant on canonical strings is needed for unions listed in different orders. The map
  built from a list keeps, for each canonical string, the last alternative with that string; so
  two lists with the same alternatives, of which two share a canonical string and differ in a
  flag, are compared by their last such alternatives.
\<close>

lemma same_alternatives_in_other_order:
  "checkAlternativesConsistencyHelper
     [\<lparr>types = [''B''], array = False, reference = False\<rparr>,
      \<lparr>types = [''B''], array = True, reference = False\<rparr>]
     [\<lparr>types = [''B''], array = True, reference = False\<rparr>,
      \<lparr>types = [''B''], array = False, reference = False\<rparr>]
   = [\<lparr>errorMessage = ''can't be an array'', typeString = ''B''\<rparr>]"
  by (simp add: checkAlternativesConsistencyHelper_def stringToPropertyTypeList_def
                checkFoundAlternative_def canonical_def distictAndSorted_def arrRefError_def)

section \<open>Rule-anchored diagnostics\<close>

lemma applyErrorToRuleNodes_map:
  "applyErrorToRuleNodes rules typeName errorText = map (ruleDiagnostic typeName errorText) rules"
  by (induction rules) (simp_all add: applyErrorToRuleNodes_def ruleDiagnostic_def accept_def)

lemma ruleAnchored_ruleDiagnostic: "ruleAnchored (ruleDiagnostic typeName errorText rule)"
  by (simp add: ruleAnchored_def ruleDiagnostic_def split: option.splits)

lemma applyErrorToAssignment_not_ruleAnchored:
  "d \<in> set (applyErrorToAssignment rules propertyName errorText) \<Longrightarrow> \<not> ruleAnchored d"
  by (auto simp: applyErrorToAssignment_def accept_def ruleAnchored_def Let_def
           split: option.splits)

lemma checkFoundProperty_not_ruleAnchored:
  "d \<in> set (checkFoundProperty p2s ps (applyErrorToAssignment rules) f) \<Longrightarrow> \<not> ruleAnchored d"
  using applyErrorToAssignment_not_ruleAnchored
  by (auto simp: checkFoundProperty_def Let_def split: option.splits if_splits)

lemma checkSuperTypesConsistency_rules:
  "checkSuperTypesConsistency xs ys (applyErrorToRuleNodes rules typeName) =
     concat (map (\<lambda>s. map (ruleDiagnostic typeName (specificError s True)) rules)
               (filter (\<lambda>s. s \<notin> set ys) xs))
     @ concat (map (\<lambda>s. map (ruleDiagnostic typeName (specificError s False)) rules)
                 (filter (\<lambda>s. s \<notin> set xs) ys))"
  by (simp add: checkSuperTypesConsistency_def applyErrorToRuleNodes_map)

lemma checkLackingProperty_rules:
  "concat (map (checkLackingProperty ps (applyErrorToRuleNodes rules typeName)) qs) =
     concat (map (\<lambda>q. map (ruleDiagnostic typeName
                              (''A property '' @ apos @ name q @ apos @ '' is expected'')) rules)
               (filter (\<lambda>q. name q \<notin> name ` set ps) qs))"
proof (induction qs)
  case Nil
  then show ?case by simp
next
  case (Cons q qs)
  have "(find (\<lambda>e. name q = name e) ps = None) = (name q \<notin> name ` set ps)"
    by (auto simp: find_None_iff)
  then show ?case
    using Cons.IH
    by (cases "find (\<lambda>e. name q = name e) ps")
       (auto simp: checkLackingProperty_def applyErrorToRuleNodes_map)
qed

lemma filter_ruleAnchored_rules:
  "filter ruleAnchored (concat (map (\<lambda>x. map (ruleDiagnostic typeName (g x)) rules) xs))
   = concat (map (\<lambda>x. map (ruleDiagnostic typeName (g x)) rules) xs)"
  by (auto simp: filter_id_conv ruleAnchored_ruleDiagnostic)

lemma filter_ruleAnchored_found:
  "filter ruleAnchored
     (concat (map (checkFoundProperty p2s ps (applyErrorToAssignment rules)) fs)) = []"
  using checkFoundProperty_not_ruleAnchored by (auto simp: filter_empty_conv)

text \<open>
  Claim C10. The diagnostics that reach the acceptor through \<open>applyErrorToRuleNodes\<close> are, per
  reported error, one diagnostic for each producing rule, in the shape of \<open>ruleDiagnostic\<close>:
  the message with the suffix naming the returned type, anchored to the rule's inferred-type
  annotation when present and to the rule itself otherwise, on the \<^verbatim>\<open>name\<close> property.
  For two unions these are all the diagnostics of the name, one row per error of the
  alternatives check. For two interfaces the rule-anchored diagnostics are one row per declared
  property that no inferred property matches, then one row per extra and per lacking supertype.
\<close>

theorem rule_anchored_diagnostics_per_rule:
  "applyErrorToRuleNodes rules typeName errorText = map (ruleDiagnostic typeName errorText) rules
   \<and> validateTypeInfo p2s typeName
       (InferredAndDeclared \<lparr>inferred = UnionType n1 u1, nodes = rules\<rparr>
                            \<lparr>declared = UnionType n2 u2, dnode = dn\<rparr>)
     = concat (map (\<lambda>errorInfo. map (ruleDiagnostic typeName
                                      (''A type '' @ apos @ typeString errorInfo @ apos @ '' ''
                                       @ errorMessage errorInfo)) rules)
                 (checkAlternativesConsistencyHelper u1 u2))
   \<and> filter ruleAnchored
       (validateTypeInfo p2s typeName
          (InferredAndDeclared \<lparr>inferred = InterfaceType n1 ps1 sts1, nodes = rules\<rparr>
                               \<lparr>declared = InterfaceType n2 ps2 sts2, dnode = dn\<rparr>))
     = concat (map (\<lambda>q. map (ruleDiagnostic typeName
                              (''A property '' @ apos @ name q @ apos @ '' is expected'')) rules)
                 (filter (\<lambda>q. name q \<notin> name ` set ps1) ps2))
       @ concat (map (\<lambda>s. map (ruleDiagnostic typeName (specificError s True)) rules)
                   (filter (\<lambda>s. s \<notin> set sts2) sts1))
       @ concat (map (\<lambda>s. map (ruleDiagnostic typeName (specificError s False)) rules)
                   (filter (\<lambda>s. s \<notin> set sts1) sts2))"
proof (intro conjI)
  show "applyErrorToRuleNodes rules typeName errorText
        = map (ruleDiagnostic typeName errorText) rules"
    by (rule applyErrorToRuleNodes_map)
next
  show "validateTypeInfo p2s typeName
          (InferredAndDeclared \<lparr>inferred = UnionType n1 u1, nodes = rules\<rparr>
                               \<lparr>declared = UnionType n2 u2, dnode = dn\<rparr>)
        = concat (map (\<lambda>errorInfo. map (ruleDiagnostic typeName
                                         (''A type '' @ apos @ typeString errorInfo @ apos @ '' ''
                                          @ errorMessage errorInfo)) rules)
                    (checkAlternativesConsistencyHelper u1 u2))"
    by (simp add: validateTypeInfo_def checkAlternativesConsistency_def Let_def
                  applyErrorToRuleNodes_map)
next
  show "filter ruleAnchored
          (validateTypeInfo p2s typeName
             (InferredAndDeclared \<lparr>inferred = InterfaceType n1 ps1 sts1, nodes = rules\<rparr>
                                  \<lparr>declared = InterfaceType n2 ps2 sts2, dnode = dn\<rparr>))
        = concat (map (\<lambda>q. map (ruleDiagnostic typeName
                                 (''A property '' @ apos @ name q @ apos @ '' is expected'')) rules)
                    (filter (\<lambda>q. name q \<notin> name ` set ps1) ps2))
          @ concat (map (\<lambda>s. map (ruleDiagnostic typeName (specificError s True)) rules)
                      (filter (\<lambda>s. s \<notin> set sts2) sts1))
          @ concat (map (\<lambda>s. map (ruleDiagnostic typeName (specificError s False)) rules)
                      (filter (\<lambda>s. s \<notin> set sts1) sts2))"
    by (simp add: validateTypeInfo_def checkPropertiesConsistency_def Let_def
                  checkSuperTypesConsistency_rules checkLackingProperty_rules
                  filter_ruleAnchored_rules filter_ruleAnchored_found
             del: filter_concat)
qed

text \<open>
  The theorem at a union \<^verbatim>\<open>Value\<close> returned by two rules, one of them with an
  inferred-type annotation: the extra alternative \<^verbatim>\<open>Text\<close> is reported on the
  annotation of the first rule and on the second rule itself.
\<close>

theorem rule_anchored_diagnostics_per_rule_witness:
  "validateTypeInfo propertyTypeArrayToString ''Value''
     (InferredAndDeclared
        \<lparr>inferred = UnionType ''Value'' [\<lparr>types = [''Text''], array = False, reference = False\<rparr>],
         nodes = [\<lparr>rname = ''Quoted'', ruleType = ''Value'',
                   inferredType = Some \<lparr>iname = ''Value''\<rparr>, alternatives = OtherElement\<rparr>,
                  \<lparr>rname = ''Value'', ruleType = ''Value'', inferredType = None,
                   alternatives = OtherElement\<rparr>]\<rparr>
        \<lparr>declared = UnionType ''Value'' [\<lparr>types = [''Number''], array = False, reference = False\<rparr>],
         dnode = TypeDeclaration ''Value''\<rparr>)
   = [\<lparr>severity = Error,
       message = ''A type 'Text' is not expected in a rule that returns type 'Value'.'',
       info = \<lparr>node = InferredTypeNode \<lparr>iname = ''Value''\<rparr>, property = Some ''name''\<rparr>\<rparr>,
      \<lparr>severity = Error,
       message = ''A type 'Text' is not expected in a rule that returns type 'Value'.'',
       info = \<lparr>node = RuleNode \<lparr>rname = ''Value'', ruleType = ''Value'', inferredType = None,
                                 alternatives = OtherElement\<rparr>,
               property = Some ''name''\<rparr>\<rparr>]"
  using rule_anchored_diagnostics_per_rule
          [where rules = "[\<lparr>rname = ''Quoted'', ruleType = ''Value'',
                 inferredType = Some \<lparr>iname = ''Value''\<rparr>, alternatives = OtherElement\<rparr>,
                \<lparr>rname = ''Value'', ruleType = ''Value'', inferredType = None,
                 alternatives = OtherElement\<rparr>]"
             and typeName = "''Value''" and errorText = "[]"
             and ?p2s.0 = propertyTypeArrayToString and ?n1.0 = "''Value''"
             and ?u1.0 = "[\<lparr>types = [''Text''], array = False, reference = False\<rparr>]"
             and ?n2.0 = "''Value''"
             and ?u2.0 = "[\<lparr>types = [''Number''], array = False, reference = False\<rparr>]"
             and dn = "TypeDeclaration ''Value''" and ?ps1.0 = "[]" and ?sts1.0 = "[]"
             and ?ps2.0 = "[]" and ?sts2.0 = "[]"]
  by (simp add: ruleDiagnostic_def checkAlternativesConsistencyHelper_def
                stringToPropertyTypeList_def checkFoundAlternative_def canonical_def
                distictAndSorted_def)

section \<open>Shape mismatch\<close>

lemma validateTypeInfo_shape_mismatch:
  assumes "isType (inferred i) \<noteq> isType (declared d)"
  shows "validateTypeInfo p2s typeName (InferredAndDeclared i d) =
           map (\<lambda>rule. nameDiagnostic (shapeMismatchMessage typeName) (ruleAnchor rule)) (nodes i)
           @ [nameDiagnostic (shapeMismatchMessage typeName) (DeclarationNode (dnode d))]"
proof -
  have rows: "concat (map (\<lambda>rule. accept Error (shapeMismatchMessage typeName)
                 \<lparr>node = (case inferredType rule of Some t \<Rightarrow> InferredTypeNode t
                           | None \<Rightarrow> RuleNode rule),
                   property = Some ''name''\<rparr>) rules)
              = map (\<lambda>rule. nameDiagnostic (shapeMismatchMessage typeName) (ruleAnchor rule)) rules"
    for rules
    by (induction rules) (simp_all add: accept_def nameDiagnostic_def ruleAnchor_def)
  show ?thesis
    using assms rows[of "nodes i"]
    by (cases "inferred i"; cases "declared d")
       (simp_all add: validateTypeInfo_def Let_def shapeMismatchMessage_def accept_def
                      nameDiagnostic_def)
qed

text \<open>
  Claim C4. When the pass reaches a name whose inferred and declared descriptions have
  different shape kinds, it emits the shape-mismatch message once for each producing rule,
  anchored as rule diagnostics are, then once on the declaration node, and nothing else for
  that name; the names before and after it in the map are validated as usual.
\<close>

theorem shape_mismatch_reported_on_rules_and_declaration:
  assumes "collectValidationResources astResources inferredTypes declaredTypes
           = before @ (typeName, InferredAndDeclared i d) # after"
    and "isType (inferred i) \<noteq> isType (declared d)"
  shows "validateTypesConsistency p2s astResources inferredTypes declaredTypes
         = validateEntries p2s before
           @ map (\<lambda>rule. nameDiagnostic (shapeMismatchMessage typeName) (ruleAnchor rule)) (nodes i)
           @ [nameDiagnostic (shapeMismatchMessage typeName) (DeclarationNode (dnode d))]
           @ validateEntries p2s after"
  using assms(1) validateTypeInfo_shape_mismatch[OF assms(2), of p2s typeName]
  by (simp add: validateTypesConsistency_def validateEntries_def Let_def)

text \<open>
  The theorem at a grammar whose rule \<^verbatim>\<open>Expr\<close> infers an interface while
  \<^verbatim>\<open>Expr\<close> is declared as a union type, followed by a declared-only interface
  \<^verbatim>\<open>Unused\<close>: two diagnostics, one on the rule and one on the declaration.
\<close>

theorem shape_mismatch_reported_on_rules_and_declaration_witness:
  "validateTypesConsistency propertyTypeArrayToString
     \<lparr>parserRules = [\<lparr>rname = ''Expr'', ruleType = ''Expr'', inferredType = None,
                       alternatives = OtherElement\<rparr>],
      datatypeRules = [],
      interfaceNodes = [InterfaceDeclaration ''Unused''],
      typeNodes = [TypeDeclaration ''Expr'']\<rparr>
     \<lparr>interfaces = [InterfaceType ''Expr'' [] []], unions = []\<rparr>
     \<lparr>interfaces = [InterfaceType ''Unused'' [] []],
      unions = [UnionType ''Expr'' [\<lparr>types = [''Literal''], array = False, reference = False\<rparr>]]\<rparr>
   = [\<lparr>severity = Error,
       message = ''Inferred and declared versions of type Expr have to be types or interfaces both.'',
       info = \<lparr>node = RuleNode \<lparr>rname = ''Expr'', ruleType = ''Expr'', inferredType = None,
                                 alternatives = OtherElement\<rparr>,
               property = Some ''name''\<rparr>\<rparr>,
      \<lparr>severity = Error,
       message = ''Inferred and declared versions of type Expr have to be types or interfaces both.'',
       info = \<lparr>node = DeclarationNode (TypeDeclaration ''Expr''), property = Some ''name''\<rparr>\<rparr>]"
proof -
  let ?rule = "\<lparr>rname = ''Expr'', ruleType = ''Expr'', inferredType = None,
                 alternatives = OtherElement\<rparr>"
  let ?ar = "\<lparr>parserRules = [?rule], datatypeRules = [],
               interfaceNodes = [InterfaceDeclaration ''Unused''],
               typeNodes = [TypeDeclaration ''Expr'']\<rparr>"
  let ?it = "\<lparr>interfaces = [InterfaceType ''Expr'' [] []], unions = []\<rparr>"
  let ?un = "UnionType ''Expr'' [\<lparr>types = [''Literal''], array = False, reference = False\<rparr>]"
  let ?dt = "\<lparr>interfaces = [InterfaceType ''Unused'' [] []], unions = [?un]\<rparr>"
  let ?i = "\<lparr>inferred = InterfaceType ''Expr'' [] [], nodes = [?rule]\<rparr>"
  let ?d = "\<lparr>declared = ?un, dnode = TypeDeclaration ''Expr''\<rparr>"
  let ?before = "[(''Unused'', OnlyDeclared \<lparr>declared = InterfaceType ''Unused'' [] [],
                                             dnode = InterfaceDeclaration ''Unused''\<rparr>)]"
  have res: "collectValidationResources ?ar ?it ?dt
             = ?before @ (''Expr'', InferredAndDeclared ?i ?d) # []"
    by (simp add: collectValidationResources_def getTypeNameToRules_def getRuleType_def
                  mergeTypesAndInterfaces_def MultiMap_add_def MultiMap_get_def
                  MultiMap_empty_def)
  have kinds: "isType (inferred ?i) \<noteq> isType (declared ?d)" by simp
  show ?thesis
    using shape_mismatch_reported_on_rules_and_declaration
            [OF res kinds, of propertyTypeArrayToString]
    by (simp add: validateEntries_def validateTypeInfo_def nameDiagnostic_def
                  shapeMismatchMessage_def ruleAnchor_def)
qed

section \<open>Supertypes\<close>

text \<open>
  Claim C7, as amended. Supertype consistency reports the inferred supertypes absent from the
  declared ones as not expected, then the declared supertypes absent from the inferred ones as
  expected; each report is one diagnostic per producing rule. Declared supertypes
  \<^verbatim>\<open>A, B\<close> against inferred \<^verbatim>\<open>A, C\<close> make exactly two reports,
  \<^verbatim>\<open>C\<close> not expected and then \<^verbatim>\<open>B\<close> expected, hence two diagnostics
  for each producing rule.
\<close>

theorem superTypes_difference_reported_per_rule:
  "checkSuperTypesConsistency inferredSuperTypes declaredSuperTypes
     (applyErrorToRuleNodes rules typeName)
   = concat (map (\<lambda>s. map (ruleDiagnostic typeName (specificError s True)) rules)
               (filter (\<lambda>s. s \<notin> set declaredSuperTypes) inferredSuperTypes))
     @ concat (map (\<lambda>s. map (ruleDiagnostic typeName (specificError s False)) rules)
                 (filter (\<lambda>s. s \<notin> set inferredSuperTypes) declaredSuperTypes))
   \<and> checkSuperTypesConsistency [''A'', ''C''] [''A'', ''B''] report
     = report ''A super type 'C' is not expected'' @ report ''A super type 'B' is expected''
   \<and> checkSuperTypesConsistency [''A'', ''C''] [''A'', ''B'']
       (applyErrorToRuleNodes rules typeName)
     = map (ruleDiagnostic typeName ''A super type 'C' is not expected'') rules
       @ map (ruleDiagnostic typeName ''A super type 'B' is expected'') rules"
proof -
  have two: "checkSuperTypesConsistency [''A'', ''C''] [''A'', ''B''] r
             = r ''A super type 'C' is not expected'' @ r ''A super type 'B' is expected''"
    for r :: "string \<Rightarrow> 'x list"
    by (simp add: checkSuperTypesConsistency_def specificError_def)
  show ?thesis
    using two[of report] two[of "applyErrorToRuleNodes rules typeName"]
    by (simp add: checkSuperTypesConsistency_rules applyErrorToRuleNodes_map)
qed

text \<open>The theorem at a type produced by the single rule \<^verbatim>\<open>Person\<close>: two diagnostics.\<close>

theorem superTypes_difference_reported_per_rule_witness:
  "checkSuperTypesConsistency [''A'', ''C''] [''A'', ''B'']
     (applyErrorToRuleNodes
        [\<lparr>rname = ''Person'', ruleType = ''Person'', inferredType = None,
          alternatives = OtherElement\<rparr>] ''Person'')
   = [\<lparr>severity = Error,
       message = ''A super type 'C' is not expected in a rule that returns type 'Person'.'',
       info = \<lparr>node = RuleNode \<lparr>rname = ''Person'', ruleType = ''Person'', inferredType = None,
                                 alternatives = OtherElement\<rparr>,
               property = Some ''name''\<rparr>\<rparr>,
      \<lparr>severity = Error,
       message = ''A super type 'B' is expected in a rule that returns type 'Person'.'',
       info = \<lparr>node = RuleNode \<lparr>rname = ''Person'', ruleType = ''Person'', inferredType = None,
                                 alternatives = OtherElement\<rparr>,
               property = Some ''name''\<rparr>\<rparr>]"
  using superTypes_difference_reported_per_rule
          [of "[''A'', ''C'']" "[''A'', ''B'']"
              "[\<lparr>rname = ''Person'', ruleType = ''Person'', inferredType = None,
                 alternatives = OtherElement\<rparr>]" "''Person''"
              "\<lambda>s. ([] :: GrammarNode Diagnostic list)"]
  by (simp add: ruleDiagnostic_def specificError_def)

text \<open>
  Claim C7, as stated, promises exactly two diagnostics. A type returned by two rules gets four,
  and a type that no rule returns gets none.
\<close>

theorem superTypes_difference_not_two_diagnostics:
  "length (checkSuperTypesConsistency [''A'', ''C''] [''A'', ''B'']
             (applyErrorToRuleNodes
                [\<lparr>rname = ''Student'', ruleType = ''Person'', inferredType = None,
                  alternatives = OtherElement\<rparr>,
                 \<lparr>rname = ''Teacher'', ruleType = ''Person'', inferredType = None,
                  alternatives = OtherElement\<rparr>] ''Person'')) = 4
   \<and> checkSuperTypesConsistency [''A'', ''C''] [''A'', ''B'']
       (applyErrorToRuleNodes [] ''Person'') = []"
  by (simp add: checkSuperTypesConsistency_def applyErrorToRuleNodes_def accept_def)

section \<open>Diagnostics on assignments\<close>

lemma applyErrorToAssignment_first:
  "applyErrorToAssignment rules propertyName errorText =
    (case firstAssignment rules propertyName of
       Some a \<Rightarrow> [assignmentDiagnostic errorText a] | None \<Rightarrow> [])"
  by (simp add: applyErrorToAssignment_def firstAssignment_def assignmentDiagnostic_def
                accept_def Let_def split: option.splits)

lemma foldl_clauses:
  "foldl (\<lambda>acc x. acc @ '' '' @ c x @ '';'') base xs
   = base @ concat (map (\<lambda>x. '' '' @ c x @ '';'') xs)"
  by (induction xs arbitrary: base) simp_all

lemma concat_clauses_join:
  "xs \<noteq> [] \<Longrightarrow>
   concat (map (\<lambda>x. '' '' @ c x @ '';'') xs) = '' '' @ join ''; '' (map c xs) @ '';''"
proof (induction xs rule: list_nonempty_induct)
  case (single x)
  then show ?case by simp
next
  case (cons x xs)
  then obtain y ys where "xs = y # ys" by (cases xs) auto
  with cons.IH show ?case by simp
qed

lemma replaceFinalSemicolon_snoc: "replaceFinalSemicolon (s @ '';'') = s @ ''.''"
  by (simp add: replaceFinalSemicolon_def)

lemma combined_message:
  assumes "errs \<noteq> []"
  shows "replaceFinalSemicolon
           (foldl (\<lambda>resultError errorInfo.
                     resultError @ '' '' @ apos @ typeString errorInfo @ apos
                     @ '' '' @ errorMessage errorInfo @ '';'')
              (baseError n ft et) errs)
         = typesMismatchMessage n ft et errs"
proof -
  let ?c = "\<lambda>errorInfo. apos @ typeString errorInfo @ apos @ '' '' @ errorMessage errorInfo"
  have "foldl (\<lambda>acc x. acc @ '' '' @ ?c x @ '';'') (baseError n ft et) errs
        = (baseError n ft et @ '' '' @ join ''; '' (map ?c errs)) @ '';''"
    using foldl_clauses[of ?c "baseError n ft et" errs] concat_clauses_join[OF assms, of ?c]
    by simp
  then show ?thesis
    using replaceFinalSemicolon_snoc[of "baseError n ft et @ '' '' @ join ''; '' (map ?c errs)"]
    by (simp add: typesMismatchMessage_def)
qed

lemma typesMismatchMessage_not_optionalMessage:
  "typesMismatchMessage n ft et errs \<noteq> optionalMessage m"
  by (simp add: typesMismatchMessage_def baseError_def optionalMessage_def)

lemma checkFoundProperty_matched:
  assumes "find (\<lambda>e. name f = name e) ps = Some e"
  shows "checkFoundProperty p2s ps (applyErrorToAssignment rules) f =
           (if p2s (typeAlternatives f) \<noteq> p2s (typeAlternatives e)
               \<and> checkAlternativesConsistencyHelper (typeAlternatives f) (typeAlternatives e) \<noteq> []
            then applyErrorToAssignment rules (name f)
                   (typesMismatchMessage (name f) (p2s (typeAlternatives f))
                      (p2s (typeAlternatives e))
                      (checkAlternativesConsistencyHelper (typeAlternatives f)
                         (typeAlternatives e)))
            else [])
           @ (if checkOptional f e \<and> \<not> optional e \<and> optional f
              then applyErrorToAssignment rules (name f) (optionalMessage (name f))
              else [])"
proof (cases "checkAlternativesConsistencyHelper (typeAlternatives f) (typeAlternatives e) = []")
  case True
  then show ?thesis
    using assms by (simp add: checkFoundProperty_def Let_def optionalMessage_def)
next
  case False
  from combined_message[OF False, of "name f" "p2s (typeAlternatives f)" "p2s (typeAlternatives e)"]
  show ?thesis
    using assms False by (simp add: checkFoundProperty_def Let_def optionalMessage_def)
qed

text \<open>
  Claim C5, as amended. Let an inferred property have a declared property of the same name, the
  type-alternative strings of the two being different. Leaving the optionality diagnostic aside,
  the property yields, when the producing rules hold an assignment to it and the alternatives
  check finds at least one mismatch, exactly one diagnostic: the base sentence followed by the
  mismatch clauses joined by semicolons and closed by a period, anchored to the first such
  assignment on its \<^verbatim>\<open>feature\<close>. It yields none when the check finds no mismatch, and
  none when the producing rules hold no assignment to the property.
\<close>

theorem property_types_one_combined_diagnostic:
  assumes "find (\<lambda>e. name f = name e) ps = Some e"
    and "p2s (typeAlternatives f) \<noteq> p2s (typeAlternatives e)"
  shows "filter (\<lambda>d. message d \<noteq> optionalMessage (name f))
           (checkFoundProperty p2s ps (applyErrorToAssignment rules) f)
         = (case firstAssignment rules (name f) of
              Some a \<Rightarrow>
                (if checkAlternativesConsistencyHelper (typeAlternatives f) (typeAlternatives e) = []
                 then []
                 else [assignmentDiagnostic
                         (typesMismatchMessage (name f) (p2s (typeAlternatives f))
                            (p2s (typeAlternatives e))
                            (checkAlternativesConsistencyHelper (typeAlternatives f)
                               (typeAlternatives e)))
                         a])
            | None \<Rightarrow> [])"
  using assms
  by (simp add: checkFoundProperty_matched applyErrorToAssignment_first
                assignmentDiagnostic_def typesMismatchMessage_not_optionalMessage
           split: option.splits)

text \<open>
  The theorem at a property \<^verbatim>\<open>items\<close> inferred as \<^verbatim>\<open>Item | Other\<close>
  and declared as \<^verbatim>\<open>Item[]\<close>, assigned in the rule: one diagnostic with two clauses.
\<close>

theorem property_types_one_combined_diagnostic_witness:
  "filter (\<lambda>d. message d \<noteq> optionalMessage ''items'')
     (checkFoundProperty propertyTypeArrayToString
        [\<lparr>name = ''items'',
          typeAlternatives = [\<lparr>types = [''Item''], array = True, reference = False\<rparr>],
          optional = False\<rparr>]
        (applyErrorToAssignment
           [\<lparr>rname = ''Cart'', ruleType = ''Cart'', inferredType = None,
             alternatives = CompositeElement
               [OtherElement, AssignmentElement \<lparr>feature = ''items'', position = 2\<rparr>]\<rparr>])
        \<lparr>name = ''items'',
         typeAlternatives = [\<lparr>types = [''Item''], array = False, reference = False\<rparr>,
                             \<lparr>types = [''Other''], array = False, reference = False\<rparr>],
         optional = False\<rparr>)
   = [\<lparr>severity = Error,
       message = ''The assigned type 'Item | Other' is not compatible with the declared property 'items' of type 'Item[]'. 'Item' has to be an array; 'Other' is not expected.'',
       info = \<lparr>node = AssignmentNode \<lparr>feature = ''items'', position = 2\<rparr>,
               property = Some ''feature''\<rparr>\<rparr>]"
proof -
  let ?e = "\<lparr>name = ''items'',
              typeAlternatives = [\<lparr>types = [''Item''], array = True, reference = False\<rparr>],
              optional = False\<rparr>"
  let ?f = "\<lparr>name = ''items'',
              typeAlternatives = [\<lparr>types = [''Item''], array = False, reference = False\<rparr>,
                                  \<lparr>types = [''Other''], array = False, reference = False\<rparr>],
              optional = False\<rparr>"
  have fnd: "find (\<lambda>e. name ?f = name e) [?e] = Some ?e" by simp
  have sf: "propertyTypeArrayToString
              [\<lparr>types = [''Item''], array = False, reference = False\<rparr>,
               \<lparr>types = [''Other''], array = False, reference = False\<rparr>] = ''Item | Other''"
    by (simp add: propertyTypeArrayToString_def typePropertyToString_def canonical_def
                  distictAndSorted_def)
  have se: "propertyTypeArrayToString
              [\<lparr>types = [''Item''], array = True, reference = False\<rparr>] = ''Item[]''"
    by (simp add: propertyTypeArrayToString_def typePropertyToString_def canonical_def
                  distictAndSorted_def)
  have strs: "propertyTypeArrayToString (typeAlternatives ?f)
              \<noteq> propertyTypeArrayToString (typeAlternatives ?e)"
    by (simp add: sf se)
  show ?thesis
    using property_types_one_combined_diagnostic
            [OF fnd strs,
             of "[\<lparr>rname = ''Cart'', ruleType = ''Cart'', inferredType = None,
                   alternatives = CompositeElement
                     [OtherElement, AssignmentElement \<lparr>feature = ''items'', position = 2\<rparr>]\<rparr>]"]
    by (simp add: sf se firstAssignment_def checkAlternativesConsistencyHelper_def
                  stringToPropertyTypeList_def checkFoundAlternative_def canonical_def
                  distictAndSorted_def arrRefError_def assignmentDiagnostic_def
                  typesMismatchMessage_def baseError_def)
qed

text \<open>
  Claim C5, as stated, promises exactly one diagnostic. The same two properties in a rule that
  holds no assignment to \<^verbatim>\<open>items\<close> (the property comes from elsewhere, so the rule
  body has nothing to anchor to): the strings differ, the alternatives check finds two
  mismatches, and no diagnostic is emitted.
\<close>

theorem property_types_no_assignment_no_diagnostic:
  "propertyTypeArrayToString [\<lparr>types = [''Item''], array = False, reference = False\<rparr>,
                              \<lparr>types = [''Other''], array = False, reference = False\<rparr>]
     \<noteq> propertyTypeArrayToString [\<lparr>types = [''Item''], array = True, reference = False\<rparr>]
   \<and> length (checkAlternativesConsistencyHelper
               [\<lparr>types = [''Item''], array = False, reference = False\<rparr>,
                \<lparr>types = [''Other''], array = False, reference = False\<rparr>]
               [\<lparr>types = [''Item''], array = True, reference = False\<rparr>]) = 2
   \<and> checkFoundProperty propertyTypeArrayToString
       [\<lparr>name = ''items'',
         typeAlternatives = [\<lparr>types = [''Item''], array = True, reference = False\<rparr>],
         optional = False\<rparr>]
       (applyErrorToAssignment
          [\<lparr>rname = ''Cart'', ruleType = ''Cart'', inferredType = None,
            alternatives = CompositeElement
              [OtherElement, AssignmentElement \<lparr>feature = ''owner'', position = 2\<rparr>]\<rparr>])
       \<lparr>name = ''items'',
        typeAlternatives = [\<lparr>types = [''Item''], array = False, reference = False\<rparr>,
                            \<lparr>types = [''Other''], array = False, reference = False\<rparr>],
        optional = False\<rparr>
     = []"
  by (simp add: checkFoundProperty_def applyErrorToAssignment_def Let_def checkOptional_def
                checkAlternativesConsistencyHelper_def stringToPropertyTypeList_def
                checkFoundAlternative_def canonical_def distictAndSorted_def
                propertyTypeArrayToString_def typePropertyToString_def)

text \<open>
  Claim C6, as amended. For an inferred property matched by name with a declared property, the
  diagnostic that the property can't be optional is emitted if and only if neither side has a
  single alternative that is an array, the declared property is not optional, the inferred
  property is optional, and the producing rules hold an assignment to the property; it is then
  emitted once, anchored to the first such assignment on its \<^verbatim>\<open>feature\<close>.
\<close>

theorem optional_diagnostic_iff:
  assumes "find (\<lambda>e. name f = name e) ps = Some e"
  shows "filter (\<lambda>d. message d = optionalMessage (name f))
           (checkFoundProperty p2s ps (applyErrorToAssignment rules) f)
         = (case firstAssignment rules (name f) of
              Some a \<Rightarrow>
                (if \<not> singleArrayAlternative f \<and> \<not> singleArrayAlternative e
                    \<and> \<not> optional e \<and> optional f
                 then [assignmentDiagnostic (optionalMessage (name f)) a]
                 else [])
            | None \<Rightarrow> [])"
proof -
  have co: "checkOptional f e = (\<not> singleArrayAlternative f \<and> \<not> singleArrayAlternative e)"
    by (auto simp: checkOptional_def singleArrayAlternative_def split: list.splits)
  show ?thesis
    using assms
    by (simp add: checkFoundProperty_matched applyErrorToAssignment_first co
                  assignmentDiagnostic_def typesMismatchMessage_not_optionalMessage
             split: option.splits)
qed

text \<open>
  The theorem at a property \<^verbatim>\<open>title\<close> inferred as optional and declared as
  required, assigned in the rule.
\<close>

theorem optional_diagnostic_iff_witness:
  "filter (\<lambda>d. message d = optionalMessage ''title'')
     (checkFoundProperty propertyTypeArrayToString
        [\<lparr>name = ''title'',
          typeAlternatives = [\<lparr>types = [''string''], array = False, reference = False\<rparr>],
          optional = False\<rparr>]
        (applyErrorToAssignment
           [\<lparr>rname = ''Book'', ruleType = ''Book'', inferredType = None,
             alternatives = AssignmentElement \<lparr>feature = ''title'', position = 1\<rparr>\<rparr>])
        \<lparr>name = ''title'',
         typeAlternatives = [\<lparr>types = [''string''], array = False, reference = False\<rparr>],
         optional = True\<rparr>)
   = [\<lparr>severity = Error,
       message = ''A property 'title' can't be optional.'',
       info = \<lparr>node = AssignmentNode \<lparr>feature = ''title'', position = 1\<rparr>,
               property = Some ''feature''\<rparr>\<rparr>]"
proof -
  let ?e = "\<lparr>name = ''title'',
              typeAlternatives = [\<lparr>types = [''string''], array = False, reference = False\<rparr>],
              optional = False\<rparr>"
  let ?f = "\<lparr>name = ''title'',
              typeAlternatives = [\<lparr>types = [''string''], array = False, reference = False\<rparr>],
              optional = True\<rparr>"
  have fnd: "find (\<lambda>e. name ?f = name e) [?e] = Some ?e" by simp
  show ?thesis
    using optional_diagnostic_iff
            [OF fnd, of propertyTypeArrayToString
               "[\<lparr>rname = ''Book'', ruleType = ''Book'', inferredType = None,
                  alternatives = AssignmentElement \<lparr>feature = ''title'', position = 1\<rparr>\<rparr>]"]
    by (simp add: firstAssignment_def singleArrayAlternative_def assignmentDiagnostic_def
                  optionalMessage_def)
qed

text \<open>
  Claim C6, as stated, makes the three conditions sufficient. The same two properties in a rule
  that holds no assignment to \<^verbatim>\<open>title\<close>: the conditions hold and no diagnostic is
  emitted.
\<close>

theorem optional_no_assignment_no_diagnostic:
  "checkOptional
     \<lparr>name = ''title'',
      typeAlternatives = [\<lparr>types = [''string''], array = False, reference = False\<rparr>],
      optional = True\<rparr>
     \<lparr>name = ''title'',
      typeAlternatives = [\<lparr>types = [''string''], array = False, reference = False\<rparr>],
      optional = False\<rparr>
   \<and> checkFoundProperty propertyTypeArrayToString
       [\<lparr>name = ''title'',
         typeAlternatives = [\<lparr>types = [''string''], array = False, reference = False\<rparr>],
         optional = False\<rparr>]
       (applyErrorToAssignment
          [\<lparr>rname = ''Book'', ruleType = ''Book'', inferredType = None,
            alternatives = AssignmentElement \<lparr>feature = ''author'', position = 1\<rparr>\<rparr>])
       \<lparr>name = ''title'',
        typeAlternatives = [\<lparr>types = [''string''], array = False, reference = False\<rparr>],
        optional = True\<rparr>
     = []"
  by (simp add: checkFoundProperty_def applyErrorToAssignment_def Let_def checkOptional_def)

section \<open>The validation resources\<close>

lemma find_Some_member: "find P xs = Some x \<Longrightarrow> P x \<and> x \<in> set xs"
  by (induction xs) (auto split: if_splits)

lemma declaration_node_found:
  "((case find (\<lambda>e. dname e = n) tns of Some d \<Rightarrow> Some d
     | None \<Rightarrow> find (\<lambda>e. dname e = n) ins) \<noteq> None)
   = (n \<in> dname ` set (tns @ ins))"
proof (cases "find (\<lambda>e. dname e = n) tns")
  case None
  then have "n \<notin> dname ` set tns" by (auto simp: find_None_iff)
  moreover have "(find (\<lambda>e. dname e = n) ins \<noteq> None) = (n \<in> dname ` set ins)"
    by (auto simp: find_None_iff)
  ultimately show ?thesis using None by auto
next
  case (Some d)
  then have "n \<in> dname ` set tns" using find_Some_member[OF Some] by auto
  then show ?thesis using Some by auto
qed

lemma fold_update_lookup:
  "map_of (fold (\<lambda>t acc. AList.update (key t) (val t) acc) xs acc) k
   = (case find (\<lambda>t. key t = k) (rev xs) of Some t \<Rightarrow> Some (val t) | None \<Rightarrow> map_of acc k)"
proof (induction xs rule: rev_induct)
  case Nil
  then show ?case by simp
next
  case (snoc x xs)
  then show ?case by (simp add: AList.update_conv')
qed

lemma fold_named_update_lookup:
  "map_of (fold (\<lambda>t acc. case G (key t) of Some n \<Rightarrow> AList.update (key t) (val t n) acc
                            | None \<Rightarrow> acc) xs acc) k
   = (case G k of
        None \<Rightarrow> map_of acc k
      | Some n \<Rightarrow> (case find (\<lambda>t. key t = k) (rev xs) of
                      Some t \<Rightarrow> Some (val t n) | None \<Rightarrow> map_of acc k))"
proof (induction xs rule: rev_induct)
  case Nil
  then show ?case by (simp split: option.splits)
next
  case (snoc x xs)
  then show ?case by (auto simp: AList.update_conv' split: option.splits)
qed

lemma fold_guarded_update_distinct:
  "distinct (map fst acc) \<Longrightarrow>
   distinct (map fst (fold (\<lambda>t acc. case g t of Some n \<Rightarrow> AList.update (key t) (val t n) acc
                                     | None \<Rightarrow> acc) xs acc))"
proof (induction xs arbitrary: acc)
  case Nil
  then show ?case by simp
next
  case (Cons x xs)
  then show ?case by (cases "g x") (simp_all add: AList.distinct_update)
qed

lemma fold_MultiMap_add_get:
  "fold (\<lambda>rule acc. MultiMap_add (f rule) rule acc) rs m k = m k @ filter (\<lambda>r. f r = k) rs"
  by (induction rs arbitrary: m) (auto simp: MultiMap_add_def)

lemma getTypeNameToRules_get:
  "MultiMap_get (getTypeNameToRules astResources) typeName = producingRules astResources typeName"
  using fold_MultiMap_add_get[where f = getRuleType and m = MultiMap_empty and k = typeName
          and rs = "parserRules astResources @ datatypeRules astResources"]
  by (simp add: getTypeNameToRules_def MultiMap_get_def producingRules_def MultiMap_empty_def)

lemma collectValidationResources_lookup:
  "map_of (collectValidationResources astResources inferredTypes declaredTypes) typeName
   = expectedEntry astResources inferredTypes declaredTypes typeName"
proof -
  let ?rules = "getTypeNameToRules astResources"
  let ?inf = "fold (\<lambda>type acc. AList.update (tname type)
                 \<lparr>inferred = type, nodes = MultiMap_get ?rules (tname type)\<rparr> acc)
               (mergeTypesAndInterfaces inferredTypes) []"
  let ?val = "\<lambda>type declarationNode.
                case map_of ?inf (tname type) of
                  Some inferredEntry \<Rightarrow>
                    InferredAndDeclared inferredEntry \<lparr>declared = type, dnode = declarationNode\<rparr>
                | None \<Rightarrow> OnlyDeclared \<lparr>declared = type, dnode = declarationNode\<rparr>"
  have res: "collectValidationResources astResources inferredTypes declaredTypes
             = fold (\<lambda>t acc. case declarationNodeOf astResources (tname t) of
                                Some n \<Rightarrow> AList.update (tname t) (?val t n) acc
                              | None \<Rightarrow> acc) (mergeTypesAndInterfaces declaredTypes) []"
    by (simp add: collectValidationResources_def Let_def declarationNodeOf_def)
  have inf: "map_of ?inf k
             = (case lastNamed k (mergeTypesAndInterfaces inferredTypes) of
                  Some t \<Rightarrow> Some \<lparr>inferred = t, nodes = producingRules astResources k\<rparr>
                | None \<Rightarrow> None)" for k
    using fold_update_lookup[where key = tname
            and val = "\<lambda>type. \<lparr>inferred = type, nodes = MultiMap_get ?rules (tname type)\<rparr>"
            and xs = "mergeTypesAndInterfaces inferredTypes" and acc = "[]" and k = k]
    by (auto simp: lastNamed_def getTypeNameToRules_get split: option.splits
             dest: find_Some_member)
  show ?thesis
    unfolding res
    using fold_named_update_lookup[where G = "declarationNodeOf astResources" and key = tname
            and val = ?val and xs = "mergeTypesAndInterfaces declaredTypes" and acc = "[]"
            and k = typeName]
    by (auto simp: expectedEntry_def lastNamed_def inf split: option.splits
             dest: find_Some_member)
qed

lemma collectValidationResources_distinct:
  "distinct (map fst (collectValidationResources astResources inferredTypes declaredTypes))"
  unfolding collectValidationResources_def Let_def
  by (rule fold_guarded_update_distinct) simp

lemma collectValidationResources_keys_fit:
  "set (map fst (collectValidationResources astResources inferredTypes declaredTypes))
   = set (map tname (filter (hasDeclarationNode astResources)
                       (mergeTypesAndInterfaces declaredTypes)))
   \<and> list_all (entryFits (map tname (mergeTypesAndInterfaces inferredTypes)))
       (collectValidationResources astResources inferredTypes declaredTypes)
   \<and> validateTypeInfo p2s typeName (OnlyDeclared d) = []"
proof (intro conjI)
  let ?rules = "getTypeNameToRules astResources"
  let ?inf = "fold (\<lambda>type acc. AList.update (tname type)
                 \<lparr>inferred = type, nodes = MultiMap_get ?rules (tname type)\<rparr> acc)
               (mergeTypesAndInterfaces inferredTypes) []"
  let ?g = "\<lambda>type. case find (\<lambda>e. dname e = tname type) (typeNodes astResources) of
                      Some n \<Rightarrow> Some n
                    | None \<Rightarrow> find (\<lambda>e. dname e = tname type) (interfaceNodes astResources)"
  let ?val = "\<lambda>type declarationNode.
                case map_of ?inf (tname type) of
                  Some inferredEntry \<Rightarrow>
                    InferredAndDeclared inferredEntry \<lparr>declared = type, dnode = declarationNode\<rparr>
                | None \<Rightarrow> OnlyDeclared \<lparr>declared = type, dnode = declarationNode\<rparr>"
  have res: "collectValidationResources astResources inferredTypes declaredTypes
             = fold (\<lambda>t acc. case ?g t of Some n \<Rightarrow> AList.update (tname t) (?val t n) acc
                              | None \<Rightarrow> acc) (mergeTypesAndInterfaces declaredTypes) []"
    by (simp add: collectValidationResources_def Let_def)
  have g: "(?g t \<noteq> None) = hasDeclarationNode astResources t" for t
    using declaration_node_found[where n = "tname t" and tns = "typeNodes astResources"
                                   and ins = "interfaceNodes astResources"]
    by (simp add: hasDeclarationNode_def)
  have g': "(\<exists>y. ?g t = Some y) = hasDeclarationNode astResources t" for t
    using g[of t] by auto
  show "set (map fst (collectValidationResources astResources inferredTypes declaredTypes))
        = set (map tname (filter (hasDeclarationNode astResources)
                            (mergeTypesAndInterfaces declaredTypes)))"
    using fold_guarded_update_keys[where g = ?g and key = tname and val = ?val
            and xs = "mergeTypesAndInterfaces declaredTypes" and acc = "[]"]
    by (simp add: res g')
  have inf_keys: "fst ` set ?inf = tname ` set (mergeTypesAndInterfaces inferredTypes)"
    using fold_update_keys[where key = tname
            and val = "\<lambda>type. \<lparr>inferred = type, nodes = MultiMap_get ?rules (tname type)\<rparr>"
            and xs = "mergeTypesAndInterfaces inferredTypes" and acc = "[]"] by simp
  have inf_none: "(map_of ?inf n = None) = (n \<notin> tname ` set (mergeTypesAndInterfaces inferredTypes))"
    for n
    using inf_keys by (simp add: map_of_eq_None_iff)
  have inf_some: "tname (inferred i) = n" if "map_of ?inf n = Some i" for n i
    using fold_update_last[where key = tname
            and val = "\<lambda>type. \<lparr>inferred = type, nodes = MultiMap_get ?rules (tname type)\<rparr>"
            and xs = "mergeTypesAndInterfaces inferredTypes"
            and acc = "[]" and k = n and v = i] that
    by auto
  have fits: "entryFits (map tname (mergeTypesAndInterfaces inferredTypes)) (tname t, ?val t n)"
    for t n
  proof (cases "map_of ?inf (tname t)")
    case None
    then show ?thesis using inf_none[of "tname t"] by (simp add: entryFits_def)
  next
    case (Some i)
    then have "tname t \<in> tname ` set (mergeTypesAndInterfaces inferredTypes)"
      using inf_none[of "tname t"] by auto
    then show ?thesis using Some inf_some[OF Some] by (simp add: entryFits_def)
  qed
  show "list_all (entryFits (map tname (mergeTypesAndInterfaces inferredTypes)))
          (collectValidationResources astResources inferredTypes declaredTypes)"
    unfolding list_all_iff res
  proof
    fix p
    assume p: "p \<in> set (fold (\<lambda>t acc. case ?g t of Some n \<Rightarrow> AList.update (tname t) (?val t n) acc
                                         | None \<Rightarrow> acc) (mergeTypesAndInterfaces declaredTypes) [])"
    obtain k v where kv: "p = (k, v)" by (cases p)
    from fold_guarded_update_entries[where k = k and v = v and g = ?g and key = tname
           and val = ?val and xs = "mergeTypesAndInterfaces declaredTypes" and acc = "[]"] p kv
    obtain t n where "k = tname t" "v = ?val t n" by auto
    then show "entryFits (map tname (mergeTypesAndInterfaces inferredTypes)) p"
      using fits[of t n] kv by simp
  qed
  show "validateTypeInfo p2s typeName (OnlyDeclared d) = []"
    by (simp add: validateTypeInfo_def)
qed

text \<open>
  Claim C3, as amended. The map returned by \<open>collectValidationResources\<close> has an entry exactly
  for the declared type names that have a declaration node, each name once. The entry under such
  a name holds the declared description and the declaration node and, when an inferred type has
  that name, also the inferred description and its producing rules; it never holds an inferred
  description alone. A name with only a declared description stays in the map and is not
  compared; a name with only an inferred description is not in the map.
\<close>

theorem collectValidationResources_entries:
  "map_of (collectValidationResources astResources inferredTypes declaredTypes) typeName
   = expectedEntry astResources inferredTypes declaredTypes typeName
   \<and> distinct (map fst (collectValidationResources astResources inferredTypes declaredTypes))
   \<and> set (map fst (collectValidationResources astResources inferredTypes declaredTypes))
     = set (map tname (filter (hasDeclarationNode astResources)
                         (mergeTypesAndInterfaces declaredTypes)))
   \<and> list_all (entryFits (map tname (mergeTypesAndInterfaces inferredTypes)))
       (collectValidationResources astResources inferredTypes declaredTypes)
   \<and> validateTypeInfo p2s typeName (OnlyDeclared d) = []"
  using collectValidationResources_lookup[of astResources inferredTypes declaredTypes typeName]
        collectValidationResources_distinct[of astResources inferredTypes declaredTypes]
        collectValidationResources_keys_fit[of astResources inferredTypes declaredTypes p2s
                                               typeName d]
  by simp

text \<open>
  The theorem at a grammar in which two rules return \<^verbatim>\<open>Person\<close>, whose inferred
  interface has a property and whose declared interface has none; a rule \<^verbatim>\<open>Pet\<close>
  infers an interface that is not declared; and \<^verbatim>\<open>Id\<close> is a declared-only union.
  The entry of \<^verbatim>\<open>Person\<close> holds both descriptions, the two rules and the interface
  node; that of \<^verbatim>\<open>Id\<close> the declared union and the type node;
  \<^verbatim>\<open>Pet\<close> has no entry.
\<close>

theorem collectValidationResources_entries_witness:
  "collectValidationResources
     \<lparr>parserRules = [\<lparr>rname = ''Student'', ruleType = ''Person'', inferredType = None,
                       alternatives = OtherElement\<rparr>,
                      \<lparr>rname = ''Pet'', ruleType = ''Pet'', inferredType = None,
                       alternatives = OtherElement\<rparr>,
                      \<lparr>rname = ''Teacher'', ruleType = ''Person'', inferredType = None,
                       alternatives = OtherElement\<rparr>],
      datatypeRules = [],
      interfaceNodes = [InterfaceDeclaration ''Person''],
      typeNodes = [TypeDeclaration ''Id'']\<rparr>
     \<lparr>interfaces = [InterfaceType ''Person''
                      [\<lparr>name = ''name'',
                        typeAlternatives = [\<lparr>types = [''string''], array = False,
                                             reference = False\<rparr>],
                        optional = False\<rparr>] [],
                    InterfaceType ''Pet'' [] []],
      unions = []\<rparr>
     \<lparr>interfaces = [InterfaceType ''Person'' [] []],
      unions = [UnionType ''Id'' [\<lparr>types = [''string''], array = False, reference = False\<rparr>]]\<rparr>
   = [(''Person'',
       InferredAndDeclared
         \<lparr>inferred = InterfaceType ''Person''
                       [\<lparr>name = ''name'',
                         typeAlternatives = [\<lparr>types = [''string''], array = False,
                                              reference = False\<rparr>],
                         optional = False\<rparr>] [],
          nodes = [\<lparr>rname = ''Student'', ruleType = ''Person'', inferredType = None,
                    alternatives = OtherElement\<rparr>,
                   \<lparr>rname = ''Teacher'', ruleType = ''Person'', inferredType = None,
                    alternatives = OtherElement\<rparr>]\<rparr>
         \<lparr>declared = InterfaceType ''Person'' [] [],
          dnode = InterfaceDeclaration ''Person''\<rparr>),
      (''Id'',
       OnlyDeclared
         \<lparr>declared = UnionType ''Id'' [\<lparr>types = [''string''], array = False, reference = False\<rparr>],
          dnode = TypeDeclaration ''Id''\<rparr>)]"
proof -
  let ?ar = "\<lparr>parserRules = [\<lparr>rname = ''Student'', ruleType = ''Person'', inferredType = None,
                              alternatives = OtherElement\<rparr>,
                             \<lparr>rname = ''Pet'', ruleType = ''Pet'', inferredType = None,
                              alternatives = OtherElement\<rparr>,
                             \<lparr>rname = ''Teacher'', ruleType = ''Person'', inferredType = None,
                              alternatives = OtherElement\<rparr>],
               datatypeRules = [],
               interfaceNodes = [InterfaceDeclaration ''Person''],
               typeNodes = [TypeDeclaration ''Id'']\<rparr>"
  let ?it = "\<lparr>interfaces = [InterfaceType ''Person''
                             [\<lparr>name = ''name'',
                               typeAlternatives = [\<lparr>types = [''string''], array = False,
                                                    reference = False\<rparr>],
                               optional = False\<rparr>] [],
                           InterfaceType ''Pet'' [] []],
               unions = []\<rparr>"
  let ?dt = "\<lparr>interfaces = [InterfaceType ''Person'' [] []],
               unions = [UnionType ''Id''
                           [\<lparr>types = [''string''], array = False, reference = False\<rparr>]]\<rparr>"
  have keys: "map fst (collectValidationResources ?ar ?it ?dt) = [''Person'', ''Id'']"
    by (simp add: collectValidationResources_def getTypeNameToRules_def getRuleType_def
                  mergeTypesAndInterfaces_def MultiMap_add_def MultiMap_get_def
                  MultiMap_empty_def)
  have person: "map_of (collectValidationResources ?ar ?it ?dt) ''Person''
                = expectedEntry ?ar ?it ?dt ''Person''"
    and ident: "map_of (collectValidationResources ?ar ?it ?dt) ''Id''
                = expectedEntry ?ar ?it ?dt ''Id''"
    using collectValidationResources_entries[of ?ar ?it ?dt "''Person''"]
          collectValidationResources_entries[of ?ar ?it ?dt "''Id''"]
    by simp_all
  obtain a b where ab: "collectValidationResources ?ar ?it ?dt = [(''Person'', a), (''Id'', b)]"
    using keys by (auto simp: map_eq_Cons_conv)
  let ?a = "InferredAndDeclared
              \<lparr>inferred = InterfaceType ''Person''
                            [\<lparr>name = ''name'',
                              typeAlternatives = [\<lparr>types = [''string''], array = False,
                                                   reference = False\<rparr>],
                              optional = False\<rparr>] [],
               nodes = [\<lparr>rname = ''Student'', ruleType = ''Person'', inferredType = None,
                         alternatives = OtherElement\<rparr>,
                        \<lparr>rname = ''Teacher'', ruleType = ''Person'', inferredType = None,
                         alternatives = OtherElement\<rparr>]\<rparr>
              \<lparr>declared = InterfaceType ''Person'' [] [],
               dnode = InterfaceDeclaration ''Person''\<rparr>"
  let ?b = "OnlyDeclared
              \<lparr>declared = UnionType ''Id''
                            [\<lparr>types = [''string''], array = False, reference = False\<rparr>],
               dnode = TypeDeclaration ''Id''\<rparr>"
  have ea: "expectedEntry ?ar ?it ?dt ''Person'' = Some ?a"
    by (simp add: expectedEntry_def declarationNodeOf_def lastNamed_def producingRules_def
                  getRuleType_def mergeTypesAndInterfaces_def)
  have eb: "expectedEntry ?ar ?it ?dt ''Id'' = Some ?b"
    by (simp add: expectedEntry_def declarationNodeOf_def lastNamed_def producingRules_def
                  getRuleType_def mergeTypesAndInterfaces_def)
  have "a = ?a" using person ab ea by simp
  moreover have "b = ?b" using ident ab eb by simp
  ultimately show ?thesis using ab by simp
qed

text \<open>
  Claim C3, as stated, puts every inferred type name into the map. A grammar whose rule
  \<^verbatim>\<open>Pet\<close> infers an interface, with nothing declared, gets the empty map.
\<close>

theorem collectValidationResources_drops_inferred_only:
  "collectValidationResources
     \<lparr>parserRules = [\<lparr>rname = ''Pet'', ruleType = ''Pet'', inferredType = None,
                       alternatives = OtherElement\<rparr>],
      datatypeRules = [], interfaceNodes = [], typeNodes = []\<rparr>
     \<lparr>interfaces = [InterfaceType ''Pet'' [] []], unions = []\<rparr>
     \<lparr>interfaces = [], unions = []\<rparr>
   = []"
  by (simp add: collectValidationResources_def mergeTypesAndInterfaces_def)

section \<open>The check registry\<close>

lemma fold_add_get:
  "fold (\<lambda>subtype checks. if P subtype then MultiMap_add subtype c checks else checks) ts m T
   = m T @ (if P T then replicate (count_list ts T) c else [])"
proof (induction ts arbitrary: m)
  case Nil
  then show ?case by simp
next
  case (Cons t ts)
  show ?case
    by (simp add: Cons.IH MultiMap_add_def replicate_app_Cons_same)
qed

lemma doRegister_getChecks:
  "getChecks (doRegister registry S c) T
   = getChecks registry T
     @ (if isSubtype (reflection registry) T S
        then replicate (count_list (getAllTypes (reflection registry)) T) c else [])"
  using fold_add_get[of "\<lambda>subtype. isSubtype (reflection registry) subtype S" c
                        "getAllTypes (reflection registry)" "validationChecks registry" T]
  by (simp add: getChecks_def doRegister_def MultiMap_get_def)

lemma doRegister_reflection: "reflection (doRegister registry S c) = reflection registry"
  by (simp add: doRegister_def)

lemma doRegister_keeps:
  "c' \<in> set (getChecks registry T) \<Longrightarrow> c' \<in> set (getChecks (doRegister registry S c) T)"
  by (simp add: doRegister_getChecks)

lemma doRegister_adds:
  "T \<in> set (getAllTypes (reflection registry)) \<Longrightarrow> isSubtype (reflection registry) T S \<Longrightarrow>
   c \<in> set (getChecks (doRegister registry S c) T)"
  by (simp add: doRegister_getChecks count_list_0_iff)

lemma register_checks_reflection:
  "reflection (fold (\<lambda>check registry. doRegister registry S (w check)) cs registry)
   = reflection registry"
  by (induction cs arbitrary: registry) (simp_all add: doRegister_reflection)

lemma register_checks_keeps:
  "c' \<in> set (getChecks registry T) \<Longrightarrow>
   c' \<in> set (getChecks (fold (\<lambda>check registry. doRegister registry S (w check)) cs registry) T)"
  by (induction cs arbitrary: registry) (simp_all add: doRegister_keeps)

lemma register_checks_adds:
  "c \<in> set cs \<Longrightarrow> T \<in> set (getAllTypes (reflection registry)) \<Longrightarrow>
   isSubtype (reflection registry) T S \<Longrightarrow>
   w c \<in> set (getChecks (fold (\<lambda>check registry. doRegister registry S (w check)) cs registry) T)"
proof (induction cs arbitrary: registry)
  case Nil
  then show ?case by simp
next
  case (Cons x xs)
  show ?case
  proof (cases "c = x")
    case True
    have "w x \<in> set (getChecks (doRegister registry S (w x)) T)"
      using Cons.prems doRegister_adds by fastforce
    then show ?thesis using True register_checks_keeps by fastforce
  next
    case False
    then have "c \<in> set xs" using Cons.prems by simp
    then show ?thesis
      using Cons.IH[of "doRegister registry S (w x)"] Cons.prems
      by (simp add: doRegister_reflection)
  qed
qed

lemma register_entry:
  "(case ch of
      CheckArray checks \<Rightarrow>
        fold (\<lambda>check registry. doRegister registry S (wrapValidationException check))
          checks registry
    | SingleCheck check \<Rightarrow> doRegister registry S (wrapValidationException check)
    | Undefined \<Rightarrow> registry)
   = fold (\<lambda>check registry. doRegister registry S (wrapValidationException check))
       (checksOf ch) registry"
  by (cases ch) simp_all

lemma register_fold:
  "register registry checksRecord
   = fold (\<lambda>(S, ch) registry.
             fold (\<lambda>check registry. doRegister registry S (wrapValidationException check))
               (checksOf ch) registry)
       checksRecord registry"
  by (simp add: register_def register_entry)

lemma register_reflection: "reflection (register registry checksRecord) = reflection registry"
  unfolding register_fold
  by (induction checksRecord arbitrary: registry)
     (auto simp: register_checks_reflection)

lemma register_keeps:
  "c' \<in> set (getChecks registry T) \<Longrightarrow> c' \<in> set (getChecks (register registry checksRecord) T)"
  unfolding register_fold
  by (induction checksRecord arbitrary: registry)
     (auto simp: register_checks_keeps)

lemma register_adds:
  "(S, ch) \<in> set checksRecord \<Longrightarrow> check \<in> set (checksOf ch) \<Longrightarrow>
   T \<in> set (getAllTypes (reflection registry)) \<Longrightarrow> isSubtype (reflection registry) T S \<Longrightarrow>
   wrapValidationException check \<in> set (getChecks (register registry checksRecord) T)"
proof (induction checksRecord arbitrary: registry)
  case Nil
  then show ?case by simp
next
  case (Cons e es)
  obtain S' ch' where e: "e = (S', ch')" by (cases e)
  let ?next = "fold (\<lambda>check registry. doRegister registry S' (wrapValidationException check))
                 (checksOf ch') registry"
  have step: "register registry (e # es) = register ?next es"
    by (simp add: register_fold e)
  show ?case
  proof (cases "(S, ch) = e")
    case True
    then have "wrapValidationException check \<in> set (getChecks ?next T)"
      using Cons.prems e register_checks_adds[of check "checksOf ch'" T registry S'
                                                 wrapValidationException]
      by auto
    then show ?thesis using step register_keeps by fastforce
  next
    case False
    then have "(S, ch) \<in> set es" using Cons.prems by simp
    then show ?thesis
      using Cons.IH[of ?next] Cons.prems step by (simp add: register_checks_reflection)
  qed
qed

lemma register_checks_getChecks:
  "getChecks (fold (\<lambda>check registry. doRegister registry S (w check)) cs registry) T
   = getChecks registry T
     @ (if isSubtype (reflection registry) T S
        then concat (map (\<lambda>c. replicate (count_list (getAllTypes (reflection registry)) T) (w c))
                       cs)
        else [])"
  by (induction cs arbitrary: registry)
     (simp_all add: doRegister_getChecks doRegister_reflection)

lemma register_getChecks:
  "getChecks (register registry checksRecord) T
   = getChecks registry T
     @ concat (map (\<lambda>(S, ch).
                      if isSubtype (reflection registry) T S
                      then concat (map (\<lambda>raw. replicate
                                                 (count_list (getAllTypes (reflection registry)) T)
                                                 (wrapValidationException raw))
                                     (checksOf ch))
                      else [])
                 checksRecord)"
  unfolding register_fold
proof (induction checksRecord arbitrary: registry)
  case Nil
  then show ?case by simp
next
  case (Cons e es)
  obtain S ch where e: "e = (S, ch)" by (cases e)
  show ?case
    by (simp add: e Cons.IH register_checks_getChecks register_checks_reflection
             cong: if_cong)
qed

lemma reportFailure_quiet:
  assumes "consoleError env (ConsoleFailure ''An error occurred during validation:'' err) = None"
    and "list_all (\<lambda>entry. consoleError env entry = None) (loggedStack st)"
    and "acceptor env \<lparr>severity = Error,
                       message = ''An error occurred during validation: '' @ msg,
                       info = \<lparr>node = astNode, property = None\<rparr>\<rparr> = None"
  shows "reportFailure astNode env run err (Inr msg) (Inr st)
         = \<lparr>emitted = emitted run
                       @ [\<lparr>severity = Error,
                           message = ''An error occurred during validation: '' @ msg,
                           info = \<lparr>node = astNode, property = None\<rparr>\<rparr>],
            console = console run
                      @ ConsoleFailure ''An error occurred during validation:'' err
                        # loggedStack st,
            outcome = Returned\<rparr>"
proof (cases st)
  case None
  then show ?thesis using assms by (simp add: reportFailure_def Let_def)
next
  case (Some a)
  then show ?thesis
    using assms by (cases "a = []") (simp_all add: reportFailure_def Let_def)
qed

text \<open>
  Claim C8, as amended. What \<open>register\<close> stores is the wrapped form of each check of the
  record, under every reported subtype of its type name, after the checks that were there.
  A wrapped check that returns is let through, and one that raises the cancellation signal is
  handed on unchanged, still raising that signal. When the check raises an error whose message
  and stack can be read, or another value that can be rendered as a string, and neither
  \<^verbatim>\<open>console.error\<close> nor the acceptor raises, the wrapper logs the failure, and the
  stack of an error if it is not empty, adds exactly one error diagnostic to those the check had
  emitted, \<^verbatim>\<open>An error occurred during validation:\<close> followed by the message,
  anchored to the node under check, and returns.
\<close>

theorem wrapValidationException_isolates_failures:
  "getChecks (register registry checksRecord) T
   = getChecks registry T
     @ concat (map (\<lambda>(S, ch).
                      if isSubtype (reflection registry) T S
                      then concat (map (\<lambda>raw. replicate
                                                 (count_list (getAllTypes (reflection registry)) T)
                                                 (wrapValidationException raw))
                                     (checksOf ch))
                      else [])
                 checksRecord)
   \<and> (outcome (check astNode env cancelToken) = Returned
      \<longrightarrow> wrapValidationException check astNode env cancelToken = check astNode env cancelToken)
   \<and> (outcome (check astNode env cancelToken) = Raised OperationCancelled
      \<longrightarrow> wrapValidationException check astNode env cancelToken = check astNode env cancelToken)
   \<and> (outcome (check astNode env cancelToken) = Raised err
      \<and> (err = ErrorObject (Inr msg) (Inr st) \<or> err = OtherValue (Inr msg) \<and> st = None)
      \<and> consoleError env (ConsoleFailure ''An error occurred during validation:'' err) = None
      \<and> list_all (\<lambda>entry. consoleError env entry = None) (loggedStack st)
      \<and> acceptor env \<lparr>severity = Error,
                       message = ''An error occurred during validation: '' @ msg,
                       info = \<lparr>node = astNode, property = None\<rparr>\<rparr> = None
      \<longrightarrow> wrapValidationException check astNode env cancelToken
          = \<lparr>emitted = emitted (check astNode env cancelToken)
                   @ [\<lparr>severity = Error,
                       message = ''An error occurred during validation: '' @ msg,
                       info = \<lparr>node = astNode, property = None\<rparr>\<rparr>],
               console = console (check astNode env cancelToken)
                   @ ConsoleFailure ''An error occurred during validation:'' err
                     # loggedStack st,
               outcome = Returned\<rparr>)"
proof (intro conjI impI)
  show "getChecks (register registry checksRecord) T
        = getChecks registry T
          @ concat (map (\<lambda>(S, ch).
                           if isSubtype (reflection registry) T S
                           then concat (map (\<lambda>raw. replicate
                                                      (count_list (getAllTypes (reflection registry)) T)
                                                      (wrapValidationException raw))
                                          (checksOf ch))
                           else [])
                      checksRecord)"
    by (rule register_getChecks)
next
  assume "outcome (check astNode env cancelToken) = Returned"
  then show "wrapValidationException check astNode env cancelToken = check astNode env cancelToken"
    by (simp add: wrapValidationException_def Let_def)
next
  assume "outcome (check astNode env cancelToken) = Raised OperationCancelled"
  then show "wrapValidationException check astNode env cancelToken = check astNode env cancelToken"
    by (simp add: wrapValidationException_def Let_def isOperationCancelled_def)
next
  assume h: "outcome (check astNode env cancelToken) = Raised err
      \<and> (err = ErrorObject (Inr msg) (Inr st) \<or> err = OtherValue (Inr msg) \<and> st = None)
      \<and> consoleError env (ConsoleFailure ''An error occurred during validation:'' err) = None
      \<and> list_all (\<lambda>entry. consoleError env entry = None) (loggedStack st)
      \<and> acceptor env \<lparr>severity = Error,
                       message = ''An error occurred during validation: '' @ msg,
                       info = \<lparr>node = astNode, property = None\<rparr>\<rparr> = None"
  then have quiet:
    "reportFailure astNode env (check astNode env cancelToken) err (Inr msg) (Inr st)
     = \<lparr>emitted = emitted (check astNode env cancelToken)
                   @ [\<lparr>severity = Error,
                       message = ''An error occurred during validation: '' @ msg,
                       info = \<lparr>node = astNode, property = None\<rparr>\<rparr>],
        console = console (check astNode env cancelToken)
                  @ ConsoleFailure ''An error occurred during validation:'' err
                    # loggedStack st,
        outcome = Returned\<rparr>"
    using reportFailure_quiet[of env err st msg astNode "check astNode env cancelToken"]
    by simp
  from h have "err = ErrorObject (Inr msg) (Inr st) \<or> err = OtherValue (Inr msg) \<and> st = None"
    by blast
  then show "wrapValidationException check astNode env cancelToken
          = \<lparr>emitted = emitted (check astNode env cancelToken)
                   @ [\<lparr>severity = Error,
                       message = ''An error occurred during validation: '' @ msg,
                       info = \<lparr>node = astNode, property = None\<rparr>\<rparr>],
               console = console (check astNode env cancelToken)
                   @ ConsoleFailure ''An error occurred during validation:'' err
                     # loggedStack st,
               outcome = Returned\<rparr>"
    using h quiet
    by (auto simp: wrapValidationException_def Let_def isOperationCancelled_def)
qed

text \<open>
  The theorem at a registry whose oracle knows \<^verbatim>\<open>Expr\<close> and its subtype
  \<^verbatim>\<open>Literal\<close>, with a check registered for \<^verbatim>\<open>Expr\<close> that emits a
  warning and then fails with an error that has a stack, run on a node of type
  \<^verbatim>\<open>Literal\<close> where nothing else raises: the check found under
  \<^verbatim>\<open>Literal\<close> is the wrapped one, and its run ends with the warning, the error
  diagnostic, two console entries, and a return.
\<close>

theorem wrapValidationException_isolates_failures_witness:
  "getChecks
     (register
        \<lparr>validationChecks = MultiMap_empty,
         reflection = \<lparr>getAllTypes = [''Expr'', ''Literal''],
                       isSubtype = (\<lambda>sub super. sub = super
                                      \<or> (sub = ''Literal'' \<and> super = ''Expr''))\<rparr>\<rparr>
        [(''Expr'',
          SingleCheck
            (\<lambda>(n::nat) (env::nat Environment) (t::unit).
               \<lparr>emitted = [\<lparr>severity = Warning, message = ''unused'',
                             info = \<lparr>node = n, property = None\<rparr>\<rparr>],
                console = [],
                outcome = Raised (ErrorObject (Inr ''boom'')
                                    (Inr (Some ''at check (line 3)'')))\<rparr>))])
     ''Literal''
   = [wrapValidationException
        (\<lambda>(n::nat) (env::nat Environment) (t::unit).
           \<lparr>emitted = [\<lparr>severity = Warning, message = ''unused'',
                         info = \<lparr>node = n, property = None\<rparr>\<rparr>],
            console = [],
            outcome = Raised (ErrorObject (Inr ''boom'') (Inr (Some ''at check (line 3)'')))\<rparr>)]
   \<and> wrapValidationException
       (\<lambda>(n::nat) (env::nat Environment) (t::unit).
          \<lparr>emitted = [\<lparr>severity = Warning, message = ''unused'',
                        info = \<lparr>node = n, property = None\<rparr>\<rparr>],
           console = [],
           outcome = Raised (ErrorObject (Inr ''boom'') (Inr (Some ''at check (line 3)'')))\<rparr>)
       7 \<lparr>acceptor = (\<lambda>d. None), consoleError = (\<lambda>entry. None)\<rparr> ()
     = \<lparr>emitted = [\<lparr>severity = Warning, message = ''unused'',
                     info = \<lparr>node = 7, property = None\<rparr>\<rparr>,
                    \<lparr>severity = Error, message = ''An error occurred during validation: boom'',
                     info = \<lparr>node = 7, property = None\<rparr>\<rparr>],
         console = [ConsoleFailure ''An error occurred during validation:''
                      (ErrorObject (Inr ''boom'') (Inr (Some ''at check (line 3)''))),
                    ConsoleText ''at check (line 3)''],
         outcome = Returned\<rparr>"
proof -
  let ?check = "\<lambda>(n::nat) (env::nat Environment) (t::unit).
                  \<lparr>emitted = [\<lparr>severity = Warning, message = ''unused'',
                                info = \<lparr>node = n, property = None\<rparr>\<rparr>],
                   console = [],
                   outcome = Raised (ErrorObject (Inr ''boom'')
                                       (Inr (Some ''at check (line 3)'')))\<rparr>"
  let ?reg = "\<lparr>validationChecks = MultiMap_empty,
                reflection = \<lparr>getAllTypes = [''Expr'', ''Literal''],
                              isSubtype = (\<lambda>sub super. sub = super
                                             \<or> (sub = ''Literal'' \<and> super = ''Expr''))\<rparr>\<rparr>"
  show ?thesis
    using wrapValidationException_isolates_failures
            [where registry = ?reg and checksRecord = "[(''Expr'', SingleCheck ?check)]"
               and T = "''Literal''" and check = ?check and astNode = 7
               and env = "\<lparr>acceptor = (\<lambda>d. None), consoleError = (\<lambda>entry. None)\<rparr>"
               and cancelToken = "()"
               and err = "ErrorObject (Inr ''boom'') (Inr (Some ''at check (line 3)''))"
               and msg = "''boom''" and st = "Some ''at check (line 3)''"]
    by (simp add: getChecks_def MultiMap_get_def MultiMap_empty_def)
qed

text \<open>
  Claim C8, as stated, has the wrapper turn every failure but the cancellation signal into one
  diagnostic and never rethrow. A check that raises a value which \<^verbatim>\<open>String\<close>
  cannot convert, such as \<^verbatim>\<open>Object.create(null)\<close>: the conversion in the
  \<^verbatim>\<open>catch\<close> block raises a \<^verbatim>\<open>TypeError\<close>, which leaves the wrapper, and
  no diagnostic is emitted, although the acceptor and the console raise nothing.
\<close>

theorem wrapValidationException_lets_conversion_failure_escape:
  "wrapValidationException
     (\<lambda>(n::nat) (env::nat Environment) (t::unit).
        \<lparr>emitted = [], console = [],
         outcome = Raised (OtherValue
                     (Inl (ErrorObject (Inr ''Cannot convert object to primitive value'')
                             (Inr None))))\<rparr>)
     7 \<lparr>acceptor = (\<lambda>d. None), consoleError = (\<lambda>entry. None)\<rparr> ()
   = \<lparr>emitted = [],
       console = [ConsoleFailure ''An error occurred during validation:''
                    (OtherValue
                       (Inl (ErrorObject (Inr ''Cannot convert object to primitive value'')
                               (Inr None))))],
       outcome = Raised (ErrorObject (Inr ''Cannot convert object to primitive value'')
                           (Inr None))\<rparr>"
  by (simp add: wrapValidationException_def reportFailure_def Let_def isOperationCancelled_def)

text \<open>
  Claim C9. Registering a check for \<open>S\<close> appends it to the checks of every name \<open>T\<close> that
  \<^verbatim>\<open>getAllTypes\<close> reports and \<^verbatim>\<open>isSubtype\<close> accepts as a subtype of
  \<open>S\<close> (once per occurrence of \<open>T\<close> in that list), and changes no other name. So after
  \<open>register\<close>, the checks of such a \<open>T\<close> include the wrapped form of every check that the
  record holds for \<open>S\<close>. \<open>getChecks\<close> only reads what is stored under the name: replacing the
  reflection oracle of the registry does not change its answer.
\<close>

theorem register_propagates_to_subtypes:
  "getChecks (doRegister registry S check) T
   = getChecks registry T
     @ (if isSubtype (reflection registry) T S
        then replicate (count_list (getAllTypes (reflection registry)) T) check else [])
   \<and> ((S, ch) \<in> set checksRecord \<and> raw \<in> set (checksOf ch)
      \<and> T \<in> set (getAllTypes (reflection registry)) \<and> isSubtype (reflection registry) T S
      \<longrightarrow> wrapValidationException raw \<in> set (getChecks (register registry checksRecord) T))
   \<and> getChecks (registry\<lparr>reflection := otherReflection\<rparr>) T = getChecks registry T
   \<and> getChecks registry T = MultiMap_get (validationChecks registry) T"
  using doRegister_getChecks[of registry S check T]
        register_adds[of S ch checksRecord raw T registry]
  by (simp add: getChecks_def)

text \<open>
  The theorem at a registry whose oracle knows \<^verbatim>\<open>Expr\<close>, its subtype
  \<^verbatim>\<open>Literal\<close>, and the unrelated \<^verbatim>\<open>Stmt\<close>: a check registered for
  \<^verbatim>\<open>Expr\<close> is found under \<^verbatim>\<open>Literal\<close> and not under
  \<^verbatim>\<open>Stmt\<close>.
\<close>

theorem register_propagates_to_subtypes_witness:
  "getChecks
     (register
        \<lparr>validationChecks = MultiMap_empty,
         reflection = \<lparr>getAllTypes = [''Expr'', ''Literal'', ''Stmt''],
                       isSubtype = (\<lambda>sub super. sub = super
                                      \<or> (sub = ''Literal'' \<and> super = ''Expr''))\<rparr>\<rparr>
        [(''Expr'', SingleCheck (\<lambda>(n::nat) (env::nat Environment) (t::unit).
                                   \<lparr>emitted = [], console = [], outcome = Returned\<rparr>))])
     ''Literal''
   = [wrapValidationException
        (\<lambda>(n::nat) (env::nat Environment) (t::unit).
           \<lparr>emitted = [], console = [], outcome = Returned\<rparr>)]
   \<and> getChecks
       (register
          \<lparr>validationChecks = MultiMap_empty,
           reflection = \<lparr>getAllTypes = [''Expr'', ''Literal'', ''Stmt''],
                         isSubtype = (\<lambda>sub super. sub = super
                                        \<or> (sub = ''Literal'' \<and> super = ''Expr''))\<rparr>\<rparr>
          [(''Expr'', SingleCheck (\<lambda>(n::nat) (env::nat Environment) (t::unit).
                                     \<lparr>emitted = [], console = [], outcome = Returned\<rparr>))])
       ''Stmt''
     = []"
proof -
  let ?c = "\<lambda>(n::nat) (env::nat Environment) (t::unit).
              \<lparr>emitted = ([] :: nat Diagnostic list), console = [], outcome = Returned\<rparr>"
  let ?reg = "\<lparr>validationChecks = MultiMap_empty,
                reflection = \<lparr>getAllTypes = [''Expr'', ''Literal'', ''Stmt''],
                              isSubtype = (\<lambda>sub super. sub = super
                                             \<or> (sub = ''Literal'' \<and> super = ''Expr''))\<rparr>\<rparr>"
  show ?thesis
    using register_propagates_to_subtypes
            [where registry = ?reg and S = "''Expr''" and T = "''Literal''"
               and ch = "SingleCheck ?c" and raw = ?c
               and checksRecord = "[(''Expr'', SingleCheck ?c)]"
               and check = ?c and otherReflection = "reflection ?reg"]
    by (simp add: register_def doRegister_def getChecks_def MultiMap_add_def MultiMap_get_def
                  MultiMap_empty_def)
qed

end
